theory Spec2Isabelle
  imports Main "HOL-Library.Word"
begin

section \<open>JavaScript values and the built-ins the SDK relies on\<close>

text \<open>
  The SDK handles untyped data: the body of a 402 response, the parsed \<open>X-Payment\<close>
  header and the facilitator's answers are whatever \<open>JSON.parse\<close> produced; the
  TypeScript interfaces are erased at run time. Values are therefore modelled as one
  datatype. An object is an association list read with \<open>map_of\<close> (the keys of a real
  object are distinct). Numbers are integers: the protocol only carries the version number
  and epoch seconds as numbers, amounts travel as decimal strings.

  A string is the list of the UTF-8 bytes of the (well-formed) JavaScript string. ASCII
  text is itself; a character from U+0080 to U+00FF takes two bytes, the first of them
  \<open>0xC2\<close> or \<open>0xC3\<close>; every character from U+0100 on, that is, every string with a code
  unit above 255, has a byte from \<open>0xC4\<close> up.
\<close>

datatype jsval =
    JUndefined
  | JNull
  | JBool bool
  | JNum int
  | JStr string
  | JArr "jsval list"
  | JObj "(string \<times> jsval) list"

text \<open>What a \<open>throw\<close> carries. \<open>NetworkFailure\<close> stands for a rejected transport call.\<close>

datatype exn =
    TypeError
  | SyntaxError
  | NetworkFailure string
  | Error string

text \<open>
  \<open>v.k\<close>: reading a property of \<open>undefined\<close> or \<open>null\<close> throws a TypeError; an
  object yields the property or \<open>undefined\<close>; the property names the SDK reads are not
  defined on primitives or arrays, so these yield \<open>undefined\<close>.
\<close>

fun get_prop :: "jsval \<Rightarrow> string \<Rightarrow> exn + jsval" where
  "get_prop JUndefined k = Inl TypeError"
| "get_prop JNull k = Inl TypeError"
| "get_prop (JObj kvs) k = Inr (case map_of kvs k of None \<Rightarrow> JUndefined | Some v \<Rightarrow> v)"
| "get_prop (JBool b) k = Inr JUndefined"
| "get_prop (JNum n) k = Inr JUndefined"
| "get_prop (JStr s) k = Inr JUndefined"
| "get_prop (JArr xs) k = Inr JUndefined"

text \<open>Truthiness, as tested by \<open>!x\<close>, \<open>x && y\<close> and \<open>x || y\<close>.\<close>

fun truthy :: "jsval \<Rightarrow> bool" where
  "truthy JUndefined = False"
| "truthy JNull = False"
| "truthy (JBool b) = b"
| "truthy (JNum n) = (n \<noteq> 0)"
| "truthy (JStr s) = (s \<noteq> [])"
| "truthy (JArr xs) = True"
| "truthy (JObj kvs) = True"

subsection \<open>Decimal and hexadecimal text\<close>

definition digit_char :: "nat \<Rightarrow> char" where
  "digit_char d = ''0123456789abcdef'' ! d"

fun show_nat :: "nat \<Rightarrow> string" where
  "show_nat n = (if n < 10 then [digit_char n] else show_nat (n div 10) @ [digit_char (n mod 10)])"

declare show_nat.simps [simp del]

text \<open>\<open>toString()\<close> of an integral number or of a bigint.\<close>

definition show_int :: "int \<Rightarrow> string" where
  "show_int i = (if i < 0 then CHR ''-'' # show_nat (nat (- i)) else show_nat (nat i))"

fun join :: "string \<Rightarrow> string list \<Rightarrow> string" where
  "join sep [] = []"
| "join sep [x] = x"
| "join sep (x # y # ys) = x @ sep @ join sep (y # ys)"

subsection \<open>Header lists\<close>

text \<open>
  A \<open>Headers\<close> object is a list of name/value pairs whose names compare without regard
  to ASCII case. \<open>get\<close> joins the values of all entries of that name with a comma and a
  space. \<open>set\<close> first checks its arguments and throws a TypeError when the name is no
  token or the value, with the white space at its ends removed, is no header value: a
  value with a code unit above 255 (it is no byte string), or with a NUL, a line feed or a
  carriage return in it. Then it overwrites the first entry of that name and drops the
  others, or appends.
\<close>

type_synonym Headers = "(string \<times> string) list"

definition lower_char :: "char \<Rightarrow> char" where
  "lower_char c =
     (case map_of (zip ''ABCDEFGHIJKLMNOPQRSTUVWXYZ'' ''abcdefghijklmnopqrstuvwxyz'') c of
        Some l \<Rightarrow> l
      | None \<Rightarrow> c)"

definition lower :: "string \<Rightarrow> string" where
  "lower s = map lower_char s"

definition Headers_new :: "Headers option \<Rightarrow> Headers" where
  "Headers_new ini = (case ini of None \<Rightarrow> [] | Some hs \<Rightarrow> hs)"

definition Headers_get :: "Headers \<Rightarrow> string \<Rightarrow> string option" where
  "Headers_get hs name =
     (case map snd (filter (\<lambda>(k, v). lower k = lower name) hs) of
        [] \<Rightarrow> None
      | vs \<Rightarrow> Some (join '', '' vs))"

definition is_token :: "string \<Rightarrow> bool" where
  "is_token name =
     (name \<noteq> [] \<and>
      list_all (\<lambda>c. c \<in> set (''!#$%&*+-.^_|~'' @ [CHR 0x27, CHR 0x60]
                              @ ''0123456789''
                              @ ''ABCDEFGHIJKLMNOPQRSTUVWXYZ''
                              @ ''abcdefghijklmnopqrstuvwxyz'')) name)"

definition is_http_ws :: "char \<Rightarrow> bool" where
  "is_http_ws c = (c \<in> set [CHR 0x09, CHR 0x0A, CHR 0x0D, CHR 0x20])"

definition normalize_value :: "string \<Rightarrow> string" where
  "normalize_value v = rev (dropWhile is_http_ws (rev (dropWhile is_http_ws v)))"

definition is_byte_string :: "string \<Rightarrow> bool" where
  "is_byte_string s = list_all (\<lambda>c. (of_char c :: nat) < 0xC4) s"

definition is_header_value :: "string \<Rightarrow> bool" where
  "is_header_value v =
     (is_byte_string v \<and> CHR 0x00 \<notin> set v \<and> CHR 0x0A \<notin> set v \<and> CHR 0x0D \<notin> set v)"

fun replace_header :: "Headers \<Rightarrow> string \<Rightarrow> string \<Rightarrow> Headers" where
  "replace_header [] name v = [(name, v)]"
| "replace_header ((k, x) # hs) name v =
     (if lower k = lower name
      then (k, v) # filter (\<lambda>(k', _). lower k' \<noteq> lower name) hs
      else (k, x) # replace_header hs name v)"

definition Headers_set :: "Headers \<Rightarrow> string \<Rightarrow> string \<Rightarrow> exn + Headers" where
  "Headers_set hs name v =
     (if \<not> is_token name \<or> \<not> is_header_value (normalize_value v) then Inl TypeError
      else Inr (replace_header hs name (normalize_value v)))"

section \<open>The environment: transport, clock, randomness, JSON codec\<close>

text \<open>
  A request is the pair of arguments of the global \<open>fetch\<close>: the URL and the optional
  \<open>init\<close>, of which the SDK touches \<open>method\<close> (here \<open>http_method\<close>), \<open>headers\<close>
  and \<open>body\<close>.
\<close>

record RequestInit =
  http_method :: "string option"
  headers :: "Headers option"
  body :: "string option"

record request =
  url :: string
  init :: "RequestInit option"

text \<open>A response: its status and what \<open>response.json()\<close> resolves to or rejects with.\<close>

record response =
  status :: int
  json :: "exn + jsval"

text \<open>
  Everything the code does to the outside world is appended to a trace. The environment
  answers a call from the trace so far, so that two calls in a row (two clock readings,
  the first request and its retry) may be answered differently.
\<close>

datatype event =
    NetCall request
  | WalletCall
  | ClockRead
  | RandomRead nat
  | ConsoleError string exn
  | Responded int jsval
  | PaymentVerified jsval
  | NextCalled

text \<open>
  The environment: the global \<open>fetch\<close>, \<open>Date.now()\<close> in milliseconds, the bytes
  of the random source (\<open>randomBytes\<close> in Node, \<open>crypto.getRandomValues\<close> in a browser,
  told apart by whether \<open>window\<close> is defined), \<open>JSON.parse\<close> and
  \<open>JSON.stringify\<close>, and the text of a Number of magnitude \<open>10^21\<close> or more, which
  JavaScript prints in exponent notation from the digits of the nearest double. The caller's
  \<open>init.headers\<close> are a list the platform has accepted already, as a \<open>Headers\<close> object
  or by the first call. The theorems hold for every environment.
\<close>

record runtime =
  fetch :: "event list \<Rightarrow> request \<Rightarrow> exn + response"
  Date_now :: "event list \<Rightarrow> int"
  random_byte :: "event list \<Rightarrow> nat \<Rightarrow> 8 word"
  window_defined :: bool
  JSON_parse :: "string \<Rightarrow> exn + jsval"
  JSON_stringify :: "jsval \<Rightarrow> string"
  Number_toString :: "int \<Rightarrow> string"

section \<open>\<open>ToString\<close> and \<open>BigInt(v)\<close>\<close>

text \<open>
  \<open>ToString\<close>, as applied by a template literal. An integral Number below \<open>10^21\<close> in
  magnitude prints all its digits; from there on the text is the environment's. An array
  prints its elements joined by commas, with \<open>null\<close> and \<open>undefined\<close> elements printed as
  nothing.
\<close>

fun ToString :: "runtime \<Rightarrow> jsval \<Rightarrow> string" where
  "ToString rt JUndefined = ''undefined''"
| "ToString rt JNull = ''null''"
| "ToString rt (JBool b) = (if b then ''true'' else ''false'')"
| "ToString rt (JNum n) = (if \<bar>n\<bar> < 10 ^ 21 then show_int n else Number_toString rt n)"
| "ToString rt (JStr s) = s"
| "ToString rt (JArr xs) =
     join '','' (map (\<lambda>x. if x = JNull \<or> x = JUndefined then [] else ToString rt x) xs)"
| "ToString rt (JObj kvs) = ''[object Object]''"

text \<open>
  The white space that \<open>StringToBigInt\<close> drops at both ends, as UTF-8: TAB, LF, VT, FF,
  CR, SP, U+00A0, U+1680, U+2000 to U+200A, U+2028, U+2029, U+202F, U+205F, U+3000 and
  U+FEFF.
\<close>

definition ws_sequences :: "string list" where
  "ws_sequences =
     [[CHR 0x09], [CHR 0x0A], [CHR 0x0B], [CHR 0x0C], [CHR 0x0D], [CHR 0x20],
      [CHR 0xC2, CHR 0xA0],
      [CHR 0xE1, CHR 0x9A, CHR 0x80],
      [CHR 0xE2, CHR 0x80, CHR 0x80], [CHR 0xE2, CHR 0x80, CHR 0x81],
      [CHR 0xE2, CHR 0x80, CHR 0x82], [CHR 0xE2, CHR 0x80, CHR 0x83],
      [CHR 0xE2, CHR 0x80, CHR 0x84], [CHR 0xE2, CHR 0x80, CHR 0x85],
      [CHR 0xE2, CHR 0x80, CHR 0x86], [CHR 0xE2, CHR 0x80, CHR 0x87],
      [CHR 0xE2, CHR 0x80, CHR 0x88], [CHR 0xE2, CHR 0x80, CHR 0x89],
      [CHR 0xE2, CHR 0x80, CHR 0x8A],
      [CHR 0xE2, CHR 0x80, CHR 0xA8], [CHR 0xE2, CHR 0x80, CHR 0xA9],
      [CHR 0xE2, CHR 0x80, CHR 0xAF],
      [CHR 0xE2, CHR 0x81, CHR 0x9F],
      [CHR 0xE3, CHR 0x80, CHR 0x80],
      [CHR 0xEF, CHR 0xBB, CHR 0xBF]]"

text \<open>The length of the sequence of \<open>seqs\<close> that \<open>s\<close> starts with, or 0.\<close>

definition ws_len :: "string list \<Rightarrow> string \<Rightarrow> nat" where
  "ws_len seqs s =
     (case find (\<lambda>w. take (length w) s = w) seqs of None \<Rightarrow> 0 | Some w \<Rightarrow> length w)"

function drop_ws :: "string list \<Rightarrow> string \<Rightarrow> string" where
  "drop_ws seqs s = (if ws_len seqs s = 0 then s else drop_ws seqs (drop (ws_len seqs s) s))"
  by pat_completeness auto
termination
proof (relation "measure (\<lambda>(seqs, s). length s)")
  show "wf (measure (\<lambda>(seqs, s). length s))" by simp
next
  fix seqs :: "string list" and s :: string
  assume pos: "ws_len seqs s \<noteq> 0"
  then obtain w where "take (length w) s = w" and "length w \<noteq> 0"
    by (auto simp: ws_len_def split: option.splits dest: find_Some_iff [THEN iffD1])
  then have "s \<noteq> []" by auto
  with pos show "((seqs, drop (ws_len seqs s) s), (seqs, s)) \<in> measure (\<lambda>(seqs, s). length s)"
    by simp
qed

declare drop_ws.simps [simp del]

definition trim :: "string \<Rightarrow> string" where
  "trim s = rev (drop_ws (map rev ws_sequences) (rev (drop_ws ws_sequences s)))"

definition digit_val :: "nat \<Rightarrow> char \<Rightarrow> nat option" where
  "digit_val base c =
     (case map_of
             [(CHR ''0'', 0), (CHR ''1'', 1), (CHR ''2'', 2), (CHR ''3'', 3), (CHR ''4'', 4),
              (CHR ''5'', 5), (CHR ''6'', 6), (CHR ''7'', 7), (CHR ''8'', 8), (CHR ''9'', 9),
              (CHR ''a'', 10), (CHR ''b'', 11), (CHR ''c'', 12), (CHR ''d'', 13),
              (CHR ''e'', 14), (CHR ''f'', 15),
              (CHR ''A'', 10), (CHR ''B'', 11), (CHR ''C'', 12), (CHR ''D'', 13),
              (CHR ''E'', 14), (CHR ''F'', 15)] c of
        Some d \<Rightarrow> if d < base then Some d else None
      | None \<Rightarrow> None)"

fun parse_digits :: "nat \<Rightarrow> nat \<Rightarrow> string \<Rightarrow> nat option" where
  "parse_digits base acc [] = Some acc"
| "parse_digits base acc (c # cs) =
     (case digit_val base c of
        None \<Rightarrow> None
      | Some d \<Rightarrow> parse_digits base (acc * base + d) cs)"

definition parse_numeral :: "nat \<Rightarrow> string \<Rightarrow> int option" where
  "parse_numeral base ds = (if ds = [] then None else map_option int (parse_digits base 0 ds))"

text \<open>
  \<open>StringToBigInt\<close>: surrounding white space is dropped, the empty string is zero, a
  decimal numeral may carry a sign, and the prefixes \<open>0x\<close>, \<open>0o\<close>, \<open>0b\<close> select another
  base (without a sign). Anything else is no integer.
\<close>

definition StringToBigInt :: "string \<Rightarrow> int option" where
  "StringToBigInt s =
     (let t = trim s in
      if t = [] then Some 0
      else if take 2 t \<in> set [''0x'', ''0X''] then parse_numeral 16 (drop 2 t)
      else if take 2 t \<in> set [''0o'', ''0O''] then parse_numeral 8 (drop 2 t)
      else if take 2 t \<in> set [''0b'', ''0B''] then parse_numeral 2 (drop 2 t)
      else if hd t = CHR ''-'' then map_option uminus (parse_numeral 10 (tl t))
      else if hd t = CHR ''+'' then parse_numeral 10 (tl t)
      else parse_numeral 10 t)"

text \<open>
  \<open>BigInt(v)\<close>: \<open>undefined\<close> and \<open>null\<close> throw a TypeError, a boolean is 0 or 1, an
  integral number converts, a string is read by \<open>StringToBigInt\<close> (SyntaxError when it is
  no integer), and an array or object is first turned into its string.
\<close>

fun BigInt :: "runtime \<Rightarrow> jsval \<Rightarrow> exn + int" where
  "BigInt rt JUndefined = Inl TypeError"
| "BigInt rt JNull = Inl TypeError"
| "BigInt rt (JBool b) = Inr (if b then 1 else 0)"
| "BigInt rt (JNum n) = Inr n"
| "BigInt rt v =
     (case StringToBigInt (ToString rt v) of None \<Rightarrow> Inl SyntaxError | Some n \<Rightarrow> Inr n)"

section \<open>Client: \<open>src/client/index.ts\<close>\<close>

text \<open>
  The wallet adapter is used for one thing, \<open>wallet.publicKey.toBase58()\<close>: the
  configuration holds the address that call returns, and the call is an event.
\<close>

record KovaConfig =
  facilitatorUrl :: string
  network :: string
  wallet_publicKey_toBase58 :: string
  maxPaymentAmount :: "int option"

subsection \<open>\<open>generateNonce\<close>\<close>

text \<open>
  Node: \<open>randomBytes(32).toString('hex')\<close>. Browser: each of the 32 bytes printed in
  base 16 and padded to two digits. Both read 32 bytes from the random source.
\<close>

definition hex_of_bytes :: "8 word list \<Rightarrow> string" where
  "hex_of_bytes bs = concat (map (\<lambda>b. [digit_char (unat b div 16), digit_char (unat b mod 16)]) bs)"

fun toString16 :: "nat \<Rightarrow> string" where
  "toString16 n = (if n < 16 then [digit_char n] else toString16 (n div 16) @ [digit_char (n mod 16)])"

declare toString16.simps [simp del]

definition padStart :: "nat \<Rightarrow> char \<Rightarrow> string \<Rightarrow> string" where
  "padStart n c s = replicate (n - length s) c @ s"

definition generateNonce :: "runtime \<Rightarrow> event list \<Rightarrow> string \<times> event list" where
  "generateNonce rt tr =
     (let bytes = map (random_byte rt tr) [0 ..< 32];
          tr' = tr @ [RandomRead 32]
      in if \<not> window_defined rt
         then (''0x'' @ hex_of_bytes bytes, tr')
         else (''0x'' @ concat (map (\<lambda>b. padStart 2 CHR ''0'' (toString16 (unat b))) bytes), tr'))"

subsection \<open>\<open>createPaymentPayload\<close>\<close>

text \<open>
  The object literal is evaluated field by field: the wallet's address, the two property
  reads, then \<open>Date.now()\<close> once for \<open>validAfter\<close> and once more for \<open>validBefore\<close>,
  then the nonce. \<open>Math.floor(t / 1000)\<close> is \<open>t div 1000\<close>.
\<close>

definition createPaymentPayload ::
  "runtime \<Rightarrow> string \<Rightarrow> jsval \<Rightarrow> string \<Rightarrow> event list \<Rightarrow> (exn + jsval) \<times> event list" where
  "createPaymentPayload rt wallet requirements net tr =
     (let tr1 = tr @ [WalletCall] in
      (case get_prop requirements ''payTo'' of
         Inl e \<Rightarrow> (Inl e, tr1)
       | Inr to \<Rightarrow>
      (case get_prop requirements ''maxAmountRequired'' of
         Inl e \<Rightarrow> (Inl e, tr1)
       | Inr val \<Rightarrow>
      (let validAfter = show_int (Date_now rt tr1 div 1000);
           tr2 = tr1 @ [ClockRead];
           validBefore = show_int (Date_now rt tr2 div 1000 + 3600);
           tr3 = tr2 @ [ClockRead];
           nonce = fst (generateNonce rt tr3);
           tr4 = snd (generateNonce rt tr3)
       in
      (case get_prop requirements ''scheme'' of
         Inl e \<Rightarrow> (Inl e, tr4)
       | Inr scheme \<Rightarrow>
          (Inr (JObj
             [(''x402Version'', JNum 1),
              (''scheme'', scheme),
              (''network'', JStr net),
              (''payload'', JObj
                 [(''from'', JStr wallet),
                  (''to'', to),
                  (''value'', val),
                  (''validAfter'', JStr validAfter),
                  (''validBefore'', JStr validBefore),
                  (''nonce'', JStr nonce),
                  (''v'', JStr ''0x00''),
                  (''r'', JStr (''0x'' @ replicate 64 CHR ''0'')),
                  (''s'', JStr (''0x'' @ replicate 64 CHR ''0''))])]),
           tr4))))))"

text \<open>Reading \<open>paymentPayload.payload.k\<close> off the result of \<open>createPaymentPayload\<close>.\<close>

definition payload_field :: "exn + jsval \<Rightarrow> string \<Rightarrow> exn + jsval" where
  "payload_field r k =
     (case r of
        Inl e \<Rightarrow> Inl e
      | Inr pp \<Rightarrow> (case get_prop pp ''payload'' of Inl e \<Rightarrow> Inl e | Inr p \<Rightarrow> get_prop p k))"

subsection \<open>\<open>createKovaClient(config).fetch\<close>\<close>

text \<open>
  The guard \<open>maxPaymentAmount && BigInt(...) > maxPaymentAmount\<close>: an absent ceiling
  and the bigint zero are falsy, and then the right operand is not evaluated.
\<close>

definition exceeds_max :: "runtime \<Rightarrow> int option \<Rightarrow> jsval \<Rightarrow> exn + bool" where
  "exceeds_max rt maxPayment paymentRequirements =
     (case maxPayment of
        None \<Rightarrow> Inr False
      | Some m \<Rightarrow>
          if m = 0 then Inr False
          else (case get_prop paymentRequirements ''maxAmountRequired'' of
                  Inl e \<Rightarrow> Inl e
                | Inr a \<Rightarrow> (case BigInt rt a of Inl e \<Rightarrow> Inl e | Inr n \<Rightarrow> Inr (n > m))))"

definition payment_envelope :: "jsval \<Rightarrow> jsval \<Rightarrow> jsval" where
  "payment_envelope paymentPayload paymentRequirements =
     JObj [(''x402Version'', JNum 1),
           (''paymentPayload'', paymentPayload),
           (''paymentRequirements'', paymentRequirements)]"

definition with_headers :: "RequestInit option \<Rightarrow> Headers \<Rightarrow> RequestInit" where
  "with_headers ini hs =
     (case ini of
        None \<Rightarrow> \<lparr>http_method = None, headers = Some hs, body = None\<rparr>
      | Some i \<Rightarrow> i\<lparr>headers := Some hs\<rparr>)"

definition init_headers :: "RequestInit option \<Rightarrow> Headers option" where
  "init_headers ini = (case ini of None \<Rightarrow> None | Some i \<Rightarrow> headers i)"

definition createKovaClient_fetch ::
  "runtime \<Rightarrow> KovaConfig \<Rightarrow> string \<Rightarrow> RequestInit option \<Rightarrow> event list
     \<Rightarrow> (exn + response) \<times> event list" where
  "createKovaClient_fetch rt config input init0 tr =
     (let req = \<lparr>url = input, init = init0\<rparr>;
          tr1 = tr @ [NetCall req]
      in
      (case fetch rt tr req of
         Inl e \<Rightarrow> (Inl e, tr1)
       | Inr resp \<Rightarrow>
      if status resp = 402 then
      (case json resp of
         Inl e \<Rightarrow> (Inl e, tr1)
       | Inr body0 \<Rightarrow>
      (case get_prop body0 ''paymentRequirements'' of
         Inl e \<Rightarrow> (Inl e, tr1)
       | Inr paymentRequirements \<Rightarrow>
      (case exceeds_max rt (maxPaymentAmount config) paymentRequirements of
         Inl e \<Rightarrow> (Inl e, tr1)
       | Inr over \<Rightarrow>
      if over then
        (Inl (Error (''Payment amount ''
              @ ToString rt (case get_prop paymentRequirements ''maxAmountRequired'' of
                            Inr a \<Rightarrow> a | Inl e \<Rightarrow> JUndefined)
              @ '' exceeds maximum ''
              @ show_int (case maxPaymentAmount config of Some m \<Rightarrow> m | None \<Rightarrow> 0))),
         tr1)
      else
      (case createPaymentPayload rt (wallet_publicKey_toBase58 config) paymentRequirements
              (network config) tr1 of
         (Inl e, tr2) \<Rightarrow> (Inl e, tr2)
       | (Inr paymentPayload, tr2) \<Rightarrow>
      (case Headers_set (Headers_new (init_headers init0)) ''X-Payment''
              (JSON_stringify rt (payment_envelope paymentPayload paymentRequirements)) of
         Inl e \<Rightarrow> (Inl e, tr2)
       | Inr headersWithPayment \<Rightarrow>
          (let retry = \<lparr>url = input, init = Some (with_headers init0 headersWithPayment)\<rparr>
           in (fetch rt tr2 retry, tr2 @ [NetCall retry])))))))
      else (Inr resp, tr1)))"

section \<open>Server: \<open>src/server/index.ts\<close>\<close>

record KovaPaymentHandler =
  h_facilitatorUrl :: string
  h_network :: string
  treasuryAddress :: string

text \<open>The constructor removes one trailing slash: \<open>replace(/\/$/, '')\<close>.\<close>

definition strip_trailing_slash :: "string \<Rightarrow> string" where
  "strip_trailing_slash s = (if s \<noteq> [] \<and> last s = CHR ''/'' then butlast s else s)"

definition new_KovaPaymentHandler :: "string \<Rightarrow> string \<Rightarrow> string \<Rightarrow> KovaPaymentHandler" where
  "new_KovaPaymentHandler facilitator net treasury =
     \<lparr>h_facilitatorUrl = strip_trailing_slash facilitator,
      h_network = net,
      treasuryAddress = treasury\<rparr>"

subsection \<open>\<open>extractPayment\<close>\<close>

text \<open>
  The argument is either a \<open>Headers\<close> object or a plain record from names to a string,
  a list of strings, or nothing. The result is the parsed value, or \<open>null\<close>.
\<close>

datatype header_value = HString string | HArray "string list"

datatype headers_arg =
    HeadersObject Headers
  | HeadersRecord "string \<Rightarrow> header_value option"

fun truthy_header :: "header_value option \<Rightarrow> bool" where
  "truthy_header None = False"
| "truthy_header (Some (HString s)) = (s \<noteq> [])"
| "truthy_header (Some (HArray xs)) = True"

definition payment_header :: "headers_arg \<Rightarrow> string option" where
  "payment_header hdrs =
     (case hdrs of
        HeadersObject hs \<Rightarrow> Headers_get hs ''X-Payment''
      | HeadersRecord r \<Rightarrow>
          (let xPayment = (if truthy_header (r ''x-payment'') then r ''x-payment''
                           else r ''X-Payment'')
           in (case xPayment of
                 Some (HString s) \<Rightarrow> Some s
               | Some (HArray (x # xs)) \<Rightarrow> Some x
               | Some (HArray []) \<Rightarrow> None
               | None \<Rightarrow> None)))"

definition extractPayment :: "runtime \<Rightarrow> headers_arg \<Rightarrow> jsval" where
  "extractPayment rt hdrs =
     (case payment_header hdrs of
        None \<Rightarrow> JNull
      | Some paymentHeader \<Rightarrow>
      if paymentHeader = [] then JNull
      else
      (case JSON_parse rt paymentHeader of
         Inl e \<Rightarrow> JNull
       | Inr parsed \<Rightarrow>
      (case get_prop parsed ''paymentPayload'' of
         Inl e \<Rightarrow> JNull
       | Inr pp \<Rightarrow>
      if \<not> truthy pp then JNull
      else
      (case get_prop parsed ''paymentRequirements'' of
         Inl e \<Rightarrow> JNull
       | Inr pr \<Rightarrow> if \<not> truthy pr then JNull else parsed))))"

text \<open>
  The test \<open>!parsed.k\<close> fails, and does not throw, exactly when \<open>parsed\<close> has a
  property \<open>k\<close> whose value is truthy.
\<close>

definition field_present :: "jsval \<Rightarrow> string \<Rightarrow> bool" where
  "field_present parsed k = (case get_prop parsed k of Inl e \<Rightarrow> False | Inr v \<Rightarrow> truthy v)"

subsection \<open>\<open>createPaymentRequirements\<close> and \<open>create402Response\<close>\<close>

definition createPaymentRequirements ::
  "KovaPaymentHandler \<Rightarrow> string \<Rightarrow> string \<Rightarrow> string option \<Rightarrow> jsval" where
  "createPaymentRequirements h amount resource asset =
     JObj ([(''scheme'', JStr ''exact''),
            (''network'', JStr (h_network h)),
            (''payTo'', JStr (treasuryAddress h)),
            (''maxAmountRequired'', JStr amount),
            (''resource'', JStr resource)]
           @ (case asset of
                None \<Rightarrow> []
              | Some a \<Rightarrow> if a \<noteq> [] then [(''asset'', JStr a)] else []))"

definition create402Response :: "jsval \<Rightarrow> int \<times> jsval" where
  "create402Response requirements =
     (402, JObj [(''error'', JStr ''Payment Required''),
                 (''x402Version'', JNum 1),
                 (''paymentRequirements'', requirements)])"

subsection \<open>\<open>verifyPayment\<close>\<close>

definition facilitator_post :: "runtime \<Rightarrow> string \<Rightarrow> jsval \<Rightarrow> jsval \<Rightarrow> request" where
  "facilitator_post rt endpoint paymentPayload requirements =
     \<lparr>url = endpoint,
      init = Some \<lparr>http_method = Some ''POST'',
                   headers = Some [(''Content-Type'', ''application/json'')],
                   body = Some (JSON_stringify rt (payment_envelope paymentPayload requirements))\<rparr>\<rparr>"

text \<open>The body of the \<open>try\<close> block.\<close>

definition verifyPayment_try ::
  "runtime \<Rightarrow> KovaPaymentHandler \<Rightarrow> jsval \<Rightarrow> jsval \<Rightarrow> event list \<Rightarrow> (exn + bool) \<times> event list" where
  "verifyPayment_try rt h payment requirements tr =
     (case get_prop payment ''paymentPayload'' of
        Inl e \<Rightarrow> (Inl e, tr)
      | Inr pp \<Rightarrow>
      (let req = facilitator_post rt (h_facilitatorUrl h @ ''/verify'') pp requirements;
           tr1 = tr @ [NetCall req]
       in
      (case fetch rt tr req of
         Inl e \<Rightarrow> (Inl e, tr1)
       | Inr resp \<Rightarrow>
      (case json resp of
         Inl e \<Rightarrow> (Inl e, tr1)
       | Inr result \<Rightarrow>
      (case get_prop result ''isValid'' of
         Inl e \<Rightarrow> (Inl e, tr1)
       | Inr v \<Rightarrow> (Inr (v = JBool True), tr1))))))"

text \<open>The \<open>catch\<close> logs and returns \<open>false\<close>.\<close>

definition verifyPayment ::
  "runtime \<Rightarrow> KovaPaymentHandler \<Rightarrow> jsval \<Rightarrow> jsval \<Rightarrow> event list \<Rightarrow> (exn + bool) \<times> event list" where
  "verifyPayment rt h payment requirements tr =
     (case verifyPayment_try rt h payment requirements tr of
        (Inl e, tr1) \<Rightarrow> (Inr False, tr1 @ [ConsoleError ''Payment verification failed:'' e])
      | (Inr b, tr1) \<Rightarrow> (Inr b, tr1))"

subsection \<open>\<open>settlePayment\<close>\<close>

text \<open>
  An \<open>async\<close> function runs synchronously up to its first \<open>await\<close>: \<open>settlePayment\<close>
  has issued its request (or, if reading \<open>payment.paymentPayload\<close> threw, has logged and
  rejected) by the time the call returns its promise. What follows the \<open>await\<close> runs
  when the caller's synchronous code is over. The two parts are modelled apart, so that a
  caller that does not await can run code between them.
\<close>

datatype settle_pending = Rejected exn | Awaiting "exn + response"

definition settlePayment_start ::
  "runtime \<Rightarrow> KovaPaymentHandler \<Rightarrow> jsval \<Rightarrow> jsval \<Rightarrow> event list \<Rightarrow> settle_pending \<times> event list" where
  "settlePayment_start rt h payment requirements tr =
     (case get_prop payment ''paymentPayload'' of
        Inl e \<Rightarrow> (Rejected e, tr @ [ConsoleError ''Payment settlement failed:'' e])
      | Inr pp \<Rightarrow>
          (let req = facilitator_post rt (h_facilitatorUrl h @ ''/settle'') pp requirements
           in (Awaiting (fetch rt tr req), tr @ [NetCall req])))"

definition settlePayment_resume :: "settle_pending \<Rightarrow> event list \<Rightarrow> (exn + jsval) \<times> event list" where
  "settlePayment_resume p tr =
     (case p of
        Rejected e \<Rightarrow> (Inl e, tr)
      | Awaiting (Inl e) \<Rightarrow> (Inl e, tr @ [ConsoleError ''Payment settlement failed:'' e])
      | Awaiting (Inr resp) \<Rightarrow>
          (case json resp of
             Inl e \<Rightarrow> (Inl e, tr @ [ConsoleError ''Payment settlement failed:'' e])
           | Inr result \<Rightarrow> (Inr result, tr)))"

text \<open>\<open>await settlePayment(...)\<close>: both parts in a row.\<close>

definition settlePayment ::
  "runtime \<Rightarrow> KovaPaymentHandler \<Rightarrow> jsval \<Rightarrow> jsval \<Rightarrow> event list \<Rightarrow> (exn + jsval) \<times> event list" where
  "settlePayment rt h payment requirements tr =
     (case settlePayment_start rt h payment requirements tr of
        (p, tr1) \<Rightarrow> settlePayment_resume p tr1)"

subsection \<open>\<open>middleware\<close>\<close>

text \<open>
  The callbacks handed to the middleware (\<open>res.status(code).json(body)\<close>, \<open>next()\<close>
  and \<open>onPaymentVerified(payment)\<close>) are recorded as events and, as their types say,
  return nothing; \<open>onPaymentVerified\<close> is a flag telling whether the callback was given.
  The settlement promise is not awaited: its synchronous part runs, then \<open>next()\<close>, and
  only then the rest of the settlement, whose rejection \<open>.catch(console.error)\<close> logs.
  The trace returned is the one reached when that background work is over as well.
\<close>

record middleware_config =
  amount :: string
  resource :: "string option"
  onPaymentVerified :: bool

record express_request =
  req_headers :: "string \<Rightarrow> header_value option"
  originalUrl :: "string option"
  req_url :: "string option"

text \<open>\<open>a || b\<close> on optional strings: the empty string is falsy.\<close>

definition or_string :: "string option \<Rightarrow> string option \<Rightarrow> string option" where
  "or_string a b = (case a of None \<Rightarrow> b | Some s \<Rightarrow> if s \<noteq> [] then a else b)"

text \<open>\<open>config.resource || req.originalUrl || req.url || '/'\<close>\<close>

definition request_resource :: "middleware_config \<Rightarrow> express_request \<Rightarrow> string" where
  "request_resource config req =
     (case or_string (or_string (or_string (resource config) (originalUrl req)) (req_url req))
             (Some ''/'') of
        Some s \<Rightarrow> s
      | None \<Rightarrow> [])"

definition middleware ::
  "runtime \<Rightarrow> KovaPaymentHandler \<Rightarrow> middleware_config \<Rightarrow> express_request \<Rightarrow> event list
     \<Rightarrow> (exn + unit) \<times> event list" where
  "middleware rt h config req tr =
     (let payment = extractPayment rt (HeadersRecord (req_headers req));
          requirements =
            createPaymentRequirements h (amount config) (request_resource config req) None
      in
      if \<not> truthy payment then
        (Inr (), tr @ [Responded (fst (create402Response requirements))
                                 (snd (create402Response requirements))])
      else
      (case verifyPayment rt h payment requirements tr of
         (Inl e, tr1) \<Rightarrow> (Inl e, tr1)
       | (Inr isValid, tr1) \<Rightarrow>
      if \<not> isValid then
        (Inr (), tr1 @ [Responded 402 (JObj [(''error'', JStr ''Invalid payment'')])])
      else
      (let tr2 = (if onPaymentVerified config then tr1 @ [PaymentVerified payment] else tr1);
           started = settlePayment_start rt h payment requirements tr2;
           tr3 = snd started @ [NextCalled];
           settled = settlePayment_resume (fst started) tr3
       in (Inr (),
           (case fst settled of
              Inl e \<Rightarrow> snd settled @ [ConsoleError [] e]
            | Inr r \<Rightarrow> snd settled)))))"

text \<open>Counting the requests sent to one URL.\<close>

fun is_call_to :: "string \<Rightarrow> event \<Rightarrow> bool" where
  "is_call_to u (NetCall r) = (url r = u)"
| "is_call_to u e = False"

section \<open>Fixtures\<close>

text \<open>
  A concrete environment in the manner of the mocks of \<open>tests/client.test.ts\<close>: the
  transport answers its calls from a list, in order; the clock is a function of the number
  of readings so far; the random source yields the bytes 0, 1, 2, ...; JSON text is written
  by a reference serializer, and the parser knows the texts of a given list of values and
  rejects every other string. No fixture holds a number as large as \<open>10^21\<close>.
\<close>

definition quote :: "string \<Rightarrow> string" where
  "quote s =
     CHR 0x22 # concat (map (\<lambda>c. if c = CHR 0x22 \<or> c = CHR 0x5C then [CHR 0x5C, c] else [c]) s)
       @ [CHR 0x22]"

fun stringify :: "jsval \<Rightarrow> string" where
  "stringify JUndefined = ''undefined''"
| "stringify JNull = ''null''"
| "stringify (JBool b) = (if b then ''true'' else ''false'')"
| "stringify (JNum n) = show_int n"
| "stringify (JStr s) = quote s"
| "stringify (JArr xs) =
     ''['' @ join '','' (map (\<lambda>x. if x = JUndefined then ''null'' else stringify x) xs) @ '']''"
| "stringify (JObj kvs) =
     ''{'' @ join '',''
              (concat (map (\<lambda>(k, v). if v = JUndefined then []
                                      else [quote k @ '':'' @ stringify v]) kvs))
       @ ''}''"

definition parse_known :: "jsval list \<Rightarrow> string \<Rightarrow> exn + jsval" where
  "parse_known known s =
     (case find (\<lambda>v. stringify v = s) known of
        Some v \<Rightarrow> Inr v
      | None \<Rightarrow> Inl SyntaxError)"

fun is_NetCall :: "event \<Rightarrow> bool" where
  "is_NetCall (NetCall r) = True"
| "is_NetCall e = False"

definition answer_in_order :: "(exn + response) list \<Rightarrow> event list \<Rightarrow> request \<Rightarrow> exn + response" where
  "answer_in_order answers tr req =
     (let k = length (filter is_NetCall tr)
      in if k < length answers then answers ! k else Inl (NetworkFailure ''no answer''))"

definition test_runtime :: "(exn + response) list \<Rightarrow> jsval list \<Rightarrow> (nat \<Rightarrow> int) \<Rightarrow> runtime" where
  "test_runtime answers known clock =
     \<lparr>fetch = answer_in_order answers,
      Date_now = (\<lambda>tr. clock (count_list tr ClockRead)),
      random_byte = (\<lambda>tr i. of_nat i),
      window_defined = False,
      JSON_parse = parse_known known,
      JSON_stringify = stringify,
      Number_toString = (\<lambda>n. ''1e+21'')\<rparr>"

definition test_requirements :: jsval where
  "test_requirements =
     JObj [(''scheme'', JStr ''exact''),
           (''network'', JStr ''solana-devnet''),
           (''payTo'', JStr ''recipientAddress''),
           (''maxAmountRequired'', JStr ''1000000''),
           (''resource'', JStr ''/api/data'')]"

definition paymentRequiredResponse :: response where
  "paymentRequiredResponse =
     \<lparr>status = 402,
      json = Inr (JObj [(''error'', JStr ''Payment Required''),
                        (''x402Version'', JNum 1),
                        (''paymentRequirements'', test_requirements)])\<rparr>"

definition successResponse :: response where
  "successResponse = \<lparr>status = 200, json = Inr (JObj [(''data'', JStr ''success'')])\<rparr>"

definition test_config :: "int option \<Rightarrow> KovaConfig" where
  "test_config ceiling =
     \<lparr>facilitatorUrl = ''https://kova402.com/api/v1'',
      network = ''solana-devnet'',
      wallet_publicKey_toBase58 = ''mockPublicKey123'',
      maxPaymentAmount = ceiling\<rparr>"

definition test_payload :: jsval where
  "test_payload =
     JObj [(''x402Version'', JNum 1),
           (''scheme'', JStr ''exact''),
           (''network'', JStr ''solana-devnet''),
           (''payload'', JObj [(''from'', JStr ''senderAddress''),
                               (''to'', JStr ''recipientAddress''),
                               (''value'', JStr ''1000000'')])]"

definition test_envelope :: jsval where
  "test_envelope = payment_envelope test_payload test_requirements"

definition test_handler :: KovaPaymentHandler where
  "test_handler = new_KovaPaymentHandler ''https://kova402.com/api/v1/'' ''solana-devnet'' ''treasury''"

definition facilitator_says :: "jsval \<Rightarrow> exn + response" where
  "facilitator_says v = Inr \<lparr>status = 200, json = Inr v\<rparr>"

text \<open>
  What \<open>createPaymentPayload\<close> builds for \<open>test_requirements\<close> when the clock reads
  1700000000123 ms and the wallet is the tests' mock.
\<close>

definition test_client_payload :: jsval where
  "test_client_payload =
     JObj [(''x402Version'', JNum 1),
           (''scheme'', JStr ''exact''),
           (''network'', JStr ''solana-devnet''),
           (''payload'', JObj
              [(''from'', JStr ''mockPublicKey123''),
               (''to'', JStr ''recipientAddress''),
               (''value'', JStr ''1000000''),
               (''validAfter'', JStr ''1700000000''),
               (''validBefore'', JStr ''1700003600''),
               (''nonce'', JStr
                  ''0x000102030405060708090a0b0c0d0e0f101112131415161718191a1b1c1d1e1f''),
               (''v'', JStr ''0x00''),
               (''r'', JStr (''0x'' @ replicate 64 CHR ''0'')),
               (''s'', JStr (''0x'' @ replicate 64 CHR ''0''))])]"




section \<open>Property reads, header lists and the payment retry\<close>

lemma get_prop_Inr_nonnull: "get_prop v k = Inr x \<Longrightarrow> v \<noteq> JUndefined \<and> v \<noteq> JNull"
  by (cases v) auto

lemma get_prop_total: "v \<noteq> JUndefined \<Longrightarrow> v \<noteq> JNull \<Longrightarrow> \<exists>x. get_prop v k = Inr x"
  by (cases v) auto

lemma generateNonce_trace: "snd (generateNonce rt tr) = tr @ [RandomRead 32]"
  by (simp add: generateNonce_def Let_def)

lemma createPaymentPayload_ok:
  assumes "get_prop reqs ''maxAmountRequired'' = Inr a"
  shows "\<exists>pp. createPaymentPayload rt w reqs net tr
            = (Inr pp, tr @ [WalletCall, ClockRead, ClockRead, RandomRead 32])"
proof -
  have nn: "reqs \<noteq> JUndefined" "reqs \<noteq> JNull"
    using get_prop_Inr_nonnull [OF assms] by simp_all
  obtain to where to: "get_prop reqs ''payTo'' = Inr to"
    using get_prop_total [OF nn] by blast
  obtain sch where sch: "get_prop reqs ''scheme'' = Inr sch"
    using get_prop_total [OF nn] by blast
  show ?thesis
    unfolding createPaymentPayload_def Let_def
    by (simp add: to sch assms generateNonce_trace)
qed

subsection \<open>\<open>Headers.set\<close>\<close>

lemma filter_lower_none:
  "filter (\<lambda>x. (case x of (k', _) \<Rightarrow> lower k' \<noteq> n) \<and> (case x of (k, v) \<Rightarrow> lower k = n)) hs = []"
  by (induction hs) auto

lemma replace_header_get: "Headers_get (replace_header hs name v) name = Some v"
proof (induction hs)
  case Nil
  then show ?case by (simp add: Headers_get_def)
next
  case (Cons p hs)
  obtain k x where p: "p = (k, x)" by (cases p)
  show ?case
  proof (cases "lower k = lower name")
    case True
    then show ?thesis
      by (simp add: p Headers_get_def filter_lower_none)
  next
    case False
    then show ?thesis
      using Cons.IH by (simp add: p Headers_get_def)
  qed
qed

lemma filter_lower_other:
  assumes "n \<noteq> m"
  shows "filter (\<lambda>x. (case x of (k', _) \<Rightarrow> lower k' \<noteq> m) \<and> (case x of (k, v) \<Rightarrow> lower k = n)) hs
           = filter (\<lambda>(k, v). lower k = n) hs"
  using assms by (induction hs) auto

lemma replace_header_other:
  assumes "lower n \<noteq> lower name"
  shows "Headers_get (replace_header hs name v) n = Headers_get hs n"
proof -
  have "filter (\<lambda>(k, x). lower k = lower n) (replace_header hs name v)
          = filter (\<lambda>(k, x). lower k = lower n) hs"
  proof (induction hs)
    case Nil
    then show ?case using assms by simp
  next
    case (Cons p hs)
    obtain k x where p: "p = (k, x)" by (cases p)
    show ?case
    proof (cases "lower k = lower name")
      case True
      then show ?thesis
        using assms by (simp add: p filter_lower_other)
    next
      case False
      then show ?thesis
        using Cons.IH by (simp add: p)
    qed
  qed
  then show ?thesis by (simp add: Headers_get_def)
qed

lemma X_Payment_token: "is_token ''X-Payment''"
  by (simp add: is_token_def)

lemma Headers_set_X_Payment:
  "Headers_set hs ''X-Payment'' v =
     (if is_header_value (normalize_value v)
      then Inr (replace_header hs ''X-Payment'' (normalize_value v))
      else Inl TypeError)"
  by (simp add: Headers_set_def X_Payment_token)

lemma with_headers_fields:
  "with_headers ini hs =
     \<lparr>http_method = (case ini of None \<Rightarrow> None | Some i \<Rightarrow> http_method i),
      headers = Some hs,
      body = (case ini of None \<Rightarrow> None | Some i \<Rightarrow> body i)\<rparr>"
  by (cases ini) (simp_all add: with_headers_def)

lemma caller_headers:
  "Headers_new (init_headers ini) =
     (case ini of None \<Rightarrow> [] | Some i \<Rightarrow> (case headers i of None \<Rightarrow> [] | Some h \<Rightarrow> h))"
  by (simp add: Headers_new_def init_headers_def split: option.splits)

subsection \<open>The payment path of \<open>fetch\<close>\<close>

text \<open>
  Once the guard has let the payment through, \<open>fetch\<close> builds the payload and sets the
  header; if \<open>Headers.set\<close> refuses the envelope's text it throws, and otherwise the
  request is sent again with that header, with the caller's other headers, method and body.
\<close>

lemma fetch_pays:
  assumes first: "fetch rt tr \<lparr>url = input, init = ini\<rparr> = Inr resp"
    and st: "status resp = 402"
    and body: "json resp = Inr body0"
    and reqs: "get_prop body0 ''paymentRequirements'' = Inr reqs"
    and amt: "get_prop reqs ''maxAmountRequired'' = Inr a"
    and ok: "exceeds_max rt (maxPaymentAmount config) reqs = Inr False"
  shows "\<exists>pp.
      fst (createPaymentPayload rt (wallet_publicKey_toBase58 config) reqs (network config)
             (tr @ [NetCall \<lparr>url = input, init = ini\<rparr>])) = Inr pp
    \<and> (is_header_value (normalize_value (JSON_stringify rt
            (JObj [(''x402Version'', JNum 1), (''paymentPayload'', pp),
                   (''paymentRequirements'', reqs)]))) \<longrightarrow>
        (\<exists>hs.
           createKovaClient_fetch rt config input ini tr =
             (fetch rt (tr @ [NetCall \<lparr>url = input, init = ini\<rparr>,
                              WalletCall, ClockRead, ClockRead, RandomRead 32])
                \<lparr>url = input,
                 init = Some \<lparr>http_method = (case ini of None \<Rightarrow> None | Some i \<Rightarrow> http_method i),
                              headers = Some hs,
                              body = (case ini of None \<Rightarrow> None | Some i \<Rightarrow> body i)\<rparr>\<rparr>,
              tr @ [NetCall \<lparr>url = input, init = ini\<rparr>,
                    WalletCall, ClockRead, ClockRead, RandomRead 32,
                    NetCall \<lparr>url = input,
                      init = Some \<lparr>http_method = (case ini of None \<Rightarrow> None | Some i \<Rightarrow> http_method i),
                                   headers = Some hs,
                                   body = (case ini of None \<Rightarrow> None | Some i \<Rightarrow> body i)\<rparr>\<rparr>])
         \<and> Headers_get hs ''X-Payment'' =
             Some (normalize_value (JSON_stringify rt
               (JObj [(''x402Version'', JNum 1), (''paymentPayload'', pp),
                      (''paymentRequirements'', reqs)])))
         \<and> (\<forall>n. lower n \<noteq> lower ''X-Payment'' \<longrightarrow>
               Headers_get hs n =
               Headers_get (case ini of None \<Rightarrow> []
                            | Some i \<Rightarrow> (case headers i of None \<Rightarrow> [] | Some h \<Rightarrow> h)) n)))
    \<and> (\<not> is_header_value (normalize_value (JSON_stringify rt
            (JObj [(''x402Version'', JNum 1), (''paymentPayload'', pp),
                   (''paymentRequirements'', reqs)]))) \<longrightarrow>
        createKovaClient_fetch rt config input ini tr =
          (Inl TypeError,
           tr @ [NetCall \<lparr>url = input, init = ini\<rparr>,
                 WalletCall, ClockRead, ClockRead, RandomRead 32]))"
proof -
  obtain pp where pp: "createPaymentPayload rt (wallet_publicKey_toBase58 config) reqs
        (network config) (tr @ [NetCall \<lparr>url = input, init = ini\<rparr>])
      = (Inr pp, (tr @ [NetCall \<lparr>url = input, init = ini\<rparr>])
                    @ [WalletCall, ClockRead, ClockRead, RandomRead 32])"
    using createPaymentPayload_ok [OF amt] by blast
  let ?text = "JSON_stringify rt (JObj [(''x402Version'', JNum 1), (''paymentPayload'', pp),
                                       (''paymentRequirements'', reqs)])"
  let ?mine = "case ini of None \<Rightarrow> []
               | Some i \<Rightarrow> (case headers i of None \<Rightarrow> [] | Some h \<Rightarrow> h)"
  let ?hs = "replace_header ?mine ''X-Payment'' (normalize_value ?text)"
  have run: "createKovaClient_fetch rt config input ini tr =
      (case Headers_set ?mine ''X-Payment'' ?text of
         Inl e \<Rightarrow> (Inl e, tr @ [NetCall \<lparr>url = input, init = ini\<rparr>,
                               WalletCall, ClockRead, ClockRead, RandomRead 32])
       | Inr hs \<Rightarrow>
           (fetch rt (tr @ [NetCall \<lparr>url = input, init = ini\<rparr>,
                            WalletCall, ClockRead, ClockRead, RandomRead 32])
              \<lparr>url = input, init = Some (with_headers ini hs)\<rparr>,
            tr @ [NetCall \<lparr>url = input, init = ini\<rparr>,
                  WalletCall, ClockRead, ClockRead, RandomRead 32,
                  NetCall \<lparr>url = input, init = Some (with_headers ini hs)\<rparr>]))"
    unfolding createKovaClient_fetch_def Let_def
    by (simp add: first st body reqs ok pp payment_envelope_def caller_headers
          split: sum.splits)
  have got: "Headers_get ?hs ''X-Payment'' = Some (normalize_value ?text)"
    by (rule replace_header_get)
  have kept: "\<forall>n. lower n \<noteq> lower ''X-Payment'' \<longrightarrow> Headers_get ?hs n = Headers_get ?mine n"
    by (simp add: replace_header_other)
  have valid: "is_header_value (normalize_value ?text) \<longrightarrow>
      createKovaClient_fetch rt config input ini tr =
        (fetch rt (tr @ [NetCall \<lparr>url = input, init = ini\<rparr>,
                         WalletCall, ClockRead, ClockRead, RandomRead 32])
           \<lparr>url = input,
            init = Some \<lparr>http_method = (case ini of None \<Rightarrow> None | Some i \<Rightarrow> http_method i),
                         headers = Some ?hs,
                         body = (case ini of None \<Rightarrow> None | Some i \<Rightarrow> body i)\<rparr>\<rparr>,
         tr @ [NetCall \<lparr>url = input, init = ini\<rparr>,
               WalletCall, ClockRead, ClockRead, RandomRead 32,
               NetCall \<lparr>url = input,
                 init = Some \<lparr>http_method = (case ini of None \<Rightarrow> None | Some i \<Rightarrow> http_method i),
                              headers = Some ?hs,
                              body = (case ini of None \<Rightarrow> None | Some i \<Rightarrow> body i)\<rparr>\<rparr>])"
    by (simp add: run Headers_set_X_Payment with_headers_fields)
  have invalid: "\<not> is_header_value (normalize_value ?text) \<longrightarrow>
      createKovaClient_fetch rt config input ini tr =
        (Inl TypeError,
         tr @ [NetCall \<lparr>url = input, init = ini\<rparr>,
               WalletCall, ClockRead, ClockRead, RandomRead 32])"
    by (simp add: run Headers_set_X_Payment)
  have "fst (createPaymentPayload rt (wallet_publicKey_toBase58 config) reqs (network config)
             (tr @ [NetCall \<lparr>url = input, init = ini\<rparr>])) = Inr pp"
    by (simp add: pp)
  with valid invalid got kept show ?thesis
    by blast
qed

subsection \<open>Rules for evaluating the fixtures\<close>

lemma show_nat_lt10: "n < 10 \<Longrightarrow> show_nat n = [digit_char n]"
  by (simp add: show_nat.simps)

lemma show_nat_ge10: "10 \<le> n \<Longrightarrow> show_nat n = show_nat (n div 10) @ [digit_char (n mod 10)]"
  by (subst show_nat.simps) simp

lemmas show_int_eval = show_int_def show_nat_lt10 show_nat_ge10 digit_char_def

lemma drop_ws_none: "ws_len seqs s = 0 \<Longrightarrow> drop_ws seqs s = s"
  by (simp add: drop_ws.simps)

lemma drop_ws_some:
  "ws_len seqs s \<noteq> 0 \<Longrightarrow> drop_ws seqs s = drop_ws seqs (drop (ws_len seqs s) s)"
  by (subst drop_ws.simps) simp

lemmas BigInt_eval = StringToBigInt_def trim_def drop_ws_none drop_ws_some ws_len_def
  ws_sequences_def parse_numeral_def digit_val_def Let_def

lemmas runtime_eval = test_runtime_def answer_in_order_def

section \<open>The payment payload\<close>

lemma length_hex_of_bytes: "length (hex_of_bytes bs) = 2 * length bs"
  by (induction bs) (simp_all add: hex_of_bytes_def)

lemma toString16_byte:
  fixes b :: "8 word"
  shows "padStart 2 CHR ''0'' (toString16 (unat b))
           = [digit_char (unat b div 16), digit_char (unat b mod 16)]"
proof -
  have lt: "unat b < 256"
    using unsigned_less [of b, where ?'a = nat] by simp
  show ?thesis
  proof (cases "unat b < 16")
    case True
    then show ?thesis
      by (simp add: toString16.simps padStart_def digit_char_def)
  next
    case False
    then have "unat b div 16 < 16" using lt by simp
    then have "toString16 (unat b) = [digit_char (unat b div 16), digit_char (unat b mod 16)]"
      using False by (subst toString16.simps) (simp add: toString16.simps)
    then show ?thesis by (simp add: padStart_def)
  qed
qed

lemma generateNonce_value:
  "fst (generateNonce rt tr) = ''0x'' @ hex_of_bytes (map (random_byte rt tr) [0 ..< 32])"
proof (cases "window_defined rt")
  case False
  then show ?thesis by (simp add: generateNonce_def Let_def)
next
  case True
  have "concat (map (\<lambda>b. padStart 2 CHR ''0'' (toString16 (unat b))) bs) = hex_of_bytes bs"
    for bs :: "8 word list"
    by (simp add: hex_of_bytes_def toString16_byte)
  with True show ?thesis by (simp add: generateNonce_def Let_def)
qed

lemma generateNonce_length: "length (fst (generateNonce rt tr)) = 66"
  by (simp add: generateNonce_value length_hex_of_bytes)

lemma createPaymentPayload_value:
  assumes "get_prop reqs ''payTo'' = Inr to"
    and "get_prop reqs ''maxAmountRequired'' = Inr val"
    and "get_prop reqs ''scheme'' = Inr sch"
  shows "fst (createPaymentPayload rt w reqs net tr) =
     Inr (JObj
       [(''x402Version'', JNum 1),
        (''scheme'', sch),
        (''network'', JStr net),
        (''payload'', JObj
           [(''from'', JStr w),
            (''to'', to),
            (''value'', val),
            (''validAfter'', JStr (show_int (Date_now rt (tr @ [WalletCall]) div 1000))),
            (''validBefore'',
               JStr (show_int (Date_now rt (tr @ [WalletCall, ClockRead]) div 1000 + 3600))),
            (''nonce'', JStr (fst (generateNonce rt (tr @ [WalletCall, ClockRead, ClockRead])))),
            (''v'', JStr ''0x00''),
            (''r'', JStr (''0x'' @ replicate 64 CHR ''0'')),
            (''s'', JStr (''0x'' @ replicate 64 CHR ''0''))])])"
  using assms by (simp add: createPaymentPayload_def Let_def)

lemma createPaymentPayload_fields:
  assumes "get_prop reqs ''payTo'' = Inr to"
    and "get_prop reqs ''maxAmountRequired'' = Inr val"
  shows "payload_field (fst (createPaymentPayload rt w reqs net tr)) ''from'' = Inr (JStr w)"
    and "payload_field (fst (createPaymentPayload rt w reqs net tr)) ''to'' = Inr to"
    and "payload_field (fst (createPaymentPayload rt w reqs net tr)) ''value'' = Inr val"
    and "payload_field (fst (createPaymentPayload rt w reqs net tr)) ''validAfter''
           = Inr (JStr (show_int (Date_now rt (tr @ [WalletCall]) div 1000)))"
    and "payload_field (fst (createPaymentPayload rt w reqs net tr)) ''validBefore''
           = Inr (JStr (show_int (Date_now rt (tr @ [WalletCall, ClockRead]) div 1000 + 3600)))"
    and "\<exists>n. payload_field (fst (createPaymentPayload rt w reqs net tr)) ''nonce'' = Inr (JStr n)
             \<and> length n = 66 \<and> take 2 n = ''0x''"
    and "payload_field (fst (createPaymentPayload rt w reqs net tr)) ''v'' = Inr (JStr ''0x00'')"
    and "payload_field (fst (createPaymentPayload rt w reqs net tr)) ''r''
           = Inr (JStr (''0x'' @ replicate 64 CHR ''0''))"
    and "payload_field (fst (createPaymentPayload rt w reqs net tr)) ''s''
           = Inr (JStr (''0x'' @ replicate 64 CHR ''0''))"
proof -
  have nn: "reqs \<noteq> JUndefined" "reqs \<noteq> JNull"
    using get_prop_Inr_nonnull [OF assms(1)] by simp_all
  obtain sch where sch: "get_prop reqs ''scheme'' = Inr sch"
    using get_prop_total [OF nn] by blast
  note v = createPaymentPayload_value [OF assms sch]
  show "payload_field (fst (createPaymentPayload rt w reqs net tr)) ''from'' = Inr (JStr w)"
    by (simp add: v payload_field_def)
  show "payload_field (fst (createPaymentPayload rt w reqs net tr)) ''to'' = Inr to"
    by (simp add: v payload_field_def)
  show "payload_field (fst (createPaymentPayload rt w reqs net tr)) ''value'' = Inr val"
    by (simp add: v payload_field_def)
  show "payload_field (fst (createPaymentPayload rt w reqs net tr)) ''validAfter''
           = Inr (JStr (show_int (Date_now rt (tr @ [WalletCall]) div 1000)))"
    by (simp add: v payload_field_def)
  show "payload_field (fst (createPaymentPayload rt w reqs net tr)) ''validBefore''
           = Inr (JStr (show_int (Date_now rt (tr @ [WalletCall, ClockRead]) div 1000 + 3600)))"
    by (simp add: v payload_field_def)
  show "\<exists>n. payload_field (fst (createPaymentPayload rt w reqs net tr)) ''nonce'' = Inr (JStr n)
             \<and> length n = 66 \<and> take 2 n = ''0x''"
    by (simp add: v payload_field_def generateNonce_length) (simp add: generateNonce_value)
  show "payload_field (fst (createPaymentPayload rt w reqs net tr)) ''v'' = Inr (JStr ''0x00'')"
    by (simp add: v payload_field_def)
  show "payload_field (fst (createPaymentPayload rt w reqs net tr)) ''r''
           = Inr (JStr (''0x'' @ replicate 64 CHR ''0''))"
    by (simp add: v payload_field_def)
  show "payload_field (fst (createPaymentPayload rt w reqs net tr)) ''s''
           = Inr (JStr (''0x'' @ replicate 64 CHR ''0''))"
    by (simp add: v payload_field_def)
qed

lemma test_requirements_fields:
  "get_prop test_requirements ''payTo'' = Inr (JStr ''recipientAddress'')"
  "get_prop test_requirements ''maxAmountRequired'' = Inr (JStr ''1000000'')"
  by (simp_all add: test_requirements_def)

lemma validity_window_same_second:
  assumes "get_prop reqs ''payTo'' = Inr to"
    and "get_prop reqs ''maxAmountRequired'' = Inr val"
    and "Date_now rt (tr @ [WalletCall]) div 1000 = sec"
    and "Date_now rt (tr @ [WalletCall, ClockRead]) div 1000 = sec"
  shows "payload_field (fst (createPaymentPayload rt w reqs net tr)) ''validAfter''
           = Inr (JStr (show_int sec))
       \<and> payload_field (fst (createPaymentPayload rt w reqs net tr)) ''validBefore''
           = Inr (JStr (show_int (sec + 3600)))"
  using assms(3,4) createPaymentPayload_fields(4,5) [OF assms(1,2), of rt w net tr]
  by simp

text \<open>
  Claim C7. The sender, the recipient, the value, the nonce (\<open>0x\<close> and 64 hexadecimal
  digits of 32 bytes read from the random source at that call) and the zero-filled
  signature fields are as the claim says (\<open>createPaymentPayload_fields\<close>). The validity
  window is not always one hour: \<open>validAfter\<close> and \<open>validBefore\<close> come from two
  separate readings of \<open>Date.now()\<close>, each floored to seconds. When the clock reads
  1999 ms and then 2000 ms, \<open>validAfter\<close> is 1 and \<open>validBefore\<close> is 3602, a window
  of 3601 seconds, where the source's own comment says \<open>1 hour validity\<close>.
\<close>

theorem validity_window_across_second_boundary:
  "Date_now (test_runtime [] [] (\<lambda>k. 1999 + int k)) [WalletCall] = 1999
   \<and> Date_now (test_runtime [] [] (\<lambda>k. 1999 + int k)) [WalletCall, ClockRead] = 2000
   \<and> payload_field (fst (createPaymentPayload (test_runtime [] [] (\<lambda>k. 1999 + int k))
          ''mockPublicKey123'' test_requirements ''solana-devnet'' [])) ''validAfter''
       = Inr (JStr ''1'')
   \<and> payload_field (fst (createPaymentPayload (test_runtime [] [] (\<lambda>k. 1999 + int k))
          ''mockPublicKey123'' test_requirements ''solana-devnet'' [])) ''validBefore''
       = Inr (JStr ''3602'')"
  by (simp add: createPaymentPayload_fields [OF test_requirements_fields]
        test_runtime_def show_int_eval)

subsection \<open>The fixtures' payload and envelope texts\<close>

lemma upt_32:
  "[0 ..< 32] = [0, 1, 2, 3, 4, 5, 6, 7, 8, 9, 10, 11, 12, 13, 14, 15, 16, 17, 18, 19, 20,
                 21, 22, 23, 24, 25, 26, 27, 28, 29, 30, 31]"
  by (simp add: upt_rec)

lemma test_payload_built:
  assumes "get_prop reqs ''payTo'' = Inr (JStr ''recipientAddress'')"
    and "get_prop reqs ''maxAmountRequired'' = Inr (JStr ''1000000'')"
    and "get_prop reqs ''scheme'' = Inr (JStr ''exact'')"
  shows "fst (createPaymentPayload (test_runtime answers known (\<lambda>k. 1700000000123))
               ''mockPublicKey123'' reqs ''solana-devnet'' tr) = Inr test_client_payload"
  by (simp add: createPaymentPayload_value [OF assms] generateNonce_value test_runtime_def
        upt_32 hex_of_bytes_def show_int_eval test_client_payload_def)

lemma test_requirements_reads:
  "get_prop test_requirements ''payTo'' = Inr (JStr ''recipientAddress'')"
  "get_prop test_requirements ''maxAmountRequired'' = Inr (JStr ''1000000'')"
  "get_prop test_requirements ''scheme'' = Inr (JStr ''exact'')"
  by (simp_all add: test_requirements_def)


lemma normalize_braced:
  "normalize_value (CHR ''{'' # text @ [CHR ''}'']) = CHR ''{'' # text @ [CHR ''}'']"
  by (simp add: normalize_value_def is_http_ws_def)

lemma test_text_normal:
  "normalize_value (stringify (JObj kvs)) = stringify (JObj kvs)"
  using normalize_braced by simp

lemma list_all_replicate: "list_all P (replicate n x) \<longleftrightarrow> n = 0 \<or> P x"
  by (induction n) auto

lemma test_text_valid:
  "is_header_value (stringify
     (JObj [(''x402Version'', JNum 1), (''paymentPayload'', test_client_payload),
            (''paymentRequirements'', test_requirements)]))"
  by (simp add: is_header_value_def is_byte_string_def test_client_payload_def
        test_requirements_def quote_def show_int_eval list_all_replicate)


lemma test_402_facts:
  "status paymentRequiredResponse = 402"
  "json paymentRequiredResponse
     = Inr (JObj [(''error'', JStr ''Payment Required''), (''x402Version'', JNum 1),
                  (''paymentRequirements'', test_requirements)])"
  "get_prop (JObj [(''error'', JStr ''Payment Required''), (''x402Version'', JNum 1),
                   (''paymentRequirements'', test_requirements)]) ''paymentRequirements''
     = Inr test_requirements"
  "get_prop test_requirements ''maxAmountRequired'' = Inr (JStr ''1000000'')"
  by (simp_all add: paymentRequiredResponse_def test_requirements_def)


section \<open>The client's \<open>fetch\<close>\<close>

text \<open>
  Claim C5. When the first response's status is not 402, \<open>fetch\<close> returns that response
  itself, and all it has done is the one network call, with the request as the caller gave
  it: the trace gains that \<open>NetCall\<close> and nothing else (no wallet call, no clock or random
  reading, no second request, no header added).
\<close>

theorem fetch_non402_passthrough:
  assumes "fetch rt tr \<lparr>url = input, init = ini\<rparr> = Inr resp"
    and "status resp \<noteq> 402"
  shows "createKovaClient_fetch rt config input ini tr
           = (Inr resp, tr @ [NetCall \<lparr>url = input, init = ini\<rparr>])"
  using assms by (simp add: createKovaClient_fetch_def Let_def)

theorem fetch_non402_passthrough_witness:
  "fetch (test_runtime [Inr successResponse] [] (\<lambda>k. 0)) [] \<lparr>url = ''https://api.example.com/data'', init = None\<rparr>
      = Inr successResponse
   \<and> status successResponse \<noteq> 402
   \<and> createKovaClient_fetch (test_runtime [Inr successResponse] [] (\<lambda>k. 0)) (test_config None)
         ''https://api.example.com/data'' None []
       = (Inr successResponse, [NetCall \<lparr>url = ''https://api.example.com/data'', init = None\<rparr>])"
proof -
  have h1: "fetch (test_runtime [Inr successResponse] [] (\<lambda>k. 0)) []
              \<lparr>url = ''https://api.example.com/data'', init = None\<rparr> = Inr successResponse"
    by (simp add: test_runtime_def answer_in_order_def)
  have h2: "status successResponse \<noteq> 402"
    by (simp add: successResponse_def)
  show ?thesis
    using h1 h2 fetch_non402_passthrough [OF h1 h2, of "test_config None"] by simp
qed


subsection \<open>The payment ceiling\<close>

text \<open>
  With a ceiling \<open>m\<close> other than zero and an amount that \<open>BigInt\<close> reads as more than
  \<open>m\<close>, \<open>fetch\<close> rejects with an error naming the amount, as the body gave it, and \<open>m\<close>;
  the trace holds the first request only. The second lemma is the case of the test suite.
\<close>

lemma fetch_rejects_nonzero_ceiling:
  assumes first: "fetch rt tr \<lparr>url = input, init = ini\<rparr> = Inr resp"
    and st: "status resp = 402"
    and body: "json resp = Inr body0"
    and reqs: "get_prop body0 ''paymentRequirements'' = Inr reqs"
    and amt: "get_prop reqs ''maxAmountRequired'' = Inr a"
    and big: "BigInt rt a = Inr n"
    and ceiling: "maxPaymentAmount config = Some m"
    and nonzero: "m \<noteq> 0"
    and over: "n > m"
  shows "createKovaClient_fetch rt config input ini tr
           = (Inl (Error (''Payment amount '' @ ToString rt a @ '' exceeds maximum '' @ show_int m)),
              tr @ [NetCall \<lparr>url = input, init = ini\<rparr>])"
  unfolding createKovaClient_fetch_def Let_def
  using assms by (simp add: exceeds_max_def)

lemma fetch_rejects_test_case:
  "createKovaClient_fetch (test_runtime [Inr paymentRequiredResponse] [] (\<lambda>k. 0))
         (test_config (Some 500000)) ''https://api.example.com/data'' None []
       = (Inl (Error ''Payment amount 1000000 exceeds maximum 500000''),
          [NetCall \<lparr>url = ''https://api.example.com/data'', init = None\<rparr>])"
proof -
  let ?rt = "test_runtime [Inr paymentRequiredResponse] [] (\<lambda>k. 0)"
  have h1: "fetch ?rt [] \<lparr>url = ''https://api.example.com/data'', init = None\<rparr>
              = Inr paymentRequiredResponse"
    by (simp add: runtime_eval)
  have h6: "BigInt ?rt (JStr ''1000000'') = Inr 1000000"
    by (simp add: BigInt_eval)
  have h7: "maxPaymentAmount (test_config (Some 500000)) = Some 500000"
    by (simp add: test_config_def)
  have msg: "''Payment amount '' @ ToString ?rt (JStr ''1000000'') @ '' exceeds maximum ''
               @ show_int 500000 = ''Payment amount 1000000 exceeds maximum 500000''"
    by (simp add: show_int_eval)
  show ?thesis
    using fetch_rejects_nonzero_ceiling [OF h1 test_402_facts h6 h7]
    unfolding msg by simp
qed

text \<open>
  Claim C4. A 402 response whose \<open>maxAmountRequired\<close> exceeds the configured ceiling makes
  \<open>fetch\<close> fail with an error naming both amounts, and nothing is retried. The code
  departs from this at the ceiling zero: the guard \<open>maxPaymentAmount && ...\<close> tests the
  ceiling for truthiness, \<open>0n\<close> is falsy, and the comparison is not made. With the ceiling
  0 and a 402 response demanding 1000000, which is more than 0, \<open>fetch\<close> does not fail:
  it returns the answer to a second, paying request, and the trace holds two network calls.
\<close>

theorem fetch_zero_ceiling_ignores_limit:
  "maxPaymentAmount (test_config (Some 0)) = Some 0
   \<and> status paymentRequiredResponse = 402
   \<and> get_prop test_requirements ''maxAmountRequired'' = Inr (JStr ''1000000'')
   \<and> BigInt (test_runtime [Inr paymentRequiredResponse, Inr successResponse] []
                (\<lambda>k. 1700000000123)) (JStr ''1000000'') = Inr 1000000
   \<and> (1000000 :: int) > 0
   \<and> fst (createKovaClient_fetch
             (test_runtime [Inr paymentRequiredResponse, Inr successResponse] []
                (\<lambda>k. 1700000000123))
             (test_config (Some 0)) ''https://api.example.com/data'' None [])
       = Inr successResponse
   \<and> length (filter is_NetCall (snd (createKovaClient_fetch
             (test_runtime [Inr paymentRequiredResponse, Inr successResponse] []
                (\<lambda>k. 1700000000123))
             (test_config (Some 0)) ''https://api.example.com/data'' None []))) = 2"
proof -
  let ?rt = "test_runtime [Inr paymentRequiredResponse, Inr successResponse] []
               (\<lambda>k. 1700000000123)"
  let ?env = "JObj [(''x402Version'', JNum 1), (''paymentPayload'', test_client_payload),
                    (''paymentRequirements'', test_requirements)]"
  have h1: "fetch ?rt [] \<lparr>url = ''https://api.example.com/data'', init = None\<rparr>
              = Inr paymentRequiredResponse"
    by (simp add: runtime_eval)
  have ok: "exceeds_max ?rt (maxPaymentAmount (test_config (Some 0))) test_requirements
              = Inr False"
    by (simp add: exceeds_max_def test_config_def)
  have built: "fst (createPaymentPayload ?rt (wallet_publicKey_toBase58 (test_config (Some 0)))
                 test_requirements (network (test_config (Some 0)))
                 ([] @ [NetCall \<lparr>url = ''https://api.example.com/data'', init = None\<rparr>]))
               = Inr test_client_payload"
    by (simp add: test_config_def test_payload_built [OF test_requirements_reads])
  have enc: "JSON_stringify ?rt ?env = stringify ?env"
    by (simp add: test_runtime_def)
  have valid: "is_header_value (normalize_value (JSON_stringify ?rt ?env))"
    unfolding enc test_text_normal by (rule test_text_valid)
  from fetch_pays [OF h1 test_402_facts ok] built valid
  obtain hs where run: "createKovaClient_fetch ?rt (test_config (Some 0))
        ''https://api.example.com/data'' None [] =
      (fetch ?rt ([] @ [NetCall \<lparr>url = ''https://api.example.com/data'', init = None\<rparr>,
                       WalletCall, ClockRead, ClockRead, RandomRead 32])
         \<lparr>url = ''https://api.example.com/data'',
          init = Some \<lparr>http_method = (case None of None \<Rightarrow> None | Some i \<Rightarrow> http_method i),
                       headers = Some hs,
                       body = (case None of None \<Rightarrow> None | Some i \<Rightarrow> body i)\<rparr>\<rparr>,
       [] @ [NetCall \<lparr>url = ''https://api.example.com/data'', init = None\<rparr>,
             WalletCall, ClockRead, ClockRead, RandomRead 32,
             NetCall \<lparr>url = ''https://api.example.com/data'',
               init = Some \<lparr>http_method = (case None of None \<Rightarrow> None | Some i \<Rightarrow> http_method i),
                            headers = Some hs,
                            body = (case None of None \<Rightarrow> None | Some i \<Rightarrow> body i)\<rparr>\<rparr>])"
    by auto
  have big: "BigInt ?rt (JStr ''1000000'') = Inr 1000000"
    by (simp add: BigInt_eval)
  show ?thesis
    unfolding run using big
    by (simp add: runtime_eval test_402_facts test_config_def)
qed


subsection \<open>The retry\<close>







section \<open>Calls to the facilitator\<close>

lemma verifyPayment_try_envelope:
  assumes "get_prop payment ''paymentPayload'' = Inr pp"
  shows "verifyPayment_try rt h payment requirements tr =
     (case fetch rt tr (facilitator_post rt (h_facilitatorUrl h @ ''/verify'') pp requirements) of
        Inl e \<Rightarrow> Inl e
      | Inr resp \<Rightarrow>
          (case json resp of
             Inl e \<Rightarrow> Inl e
           | Inr result \<Rightarrow>
               (case get_prop result ''isValid'' of
                  Inl e \<Rightarrow> Inl e
                | Inr v \<Rightarrow> Inr (v = JBool True))),
      tr @ [NetCall (facilitator_post rt (h_facilitatorUrl h @ ''/verify'') pp requirements)])"
  using assms by (simp add: verifyPayment_try_def Let_def split: sum.splits)

lemma verifyPayment_no_envelope:
  assumes "get_prop payment ''paymentPayload'' = Inl e"
  shows "verifyPayment rt h payment requirements tr
           = (Inr False, tr @ [ConsoleError ''Payment verification failed:'' e])"
  using assms by (simp add: verifyPayment_def verifyPayment_try_def)

lemma verifyPayment_envelope:
  assumes "get_prop payment ''paymentPayload'' = Inr pp"
  shows "fst (verifyPayment rt h payment requirements tr) =
     Inr (\<exists>resp result.
            fetch rt tr (facilitator_post rt (h_facilitatorUrl h @ ''/verify'') pp requirements)
              = Inr resp
          \<and> json resp = Inr result
          \<and> get_prop result ''isValid'' = Inr (JBool True))"
  unfolding verifyPayment_def verifyPayment_try_envelope [OF assms]
  by (auto split: sum.splits)

lemma verifyPayment_trace:
  assumes "get_prop payment ''paymentPayload'' = Inr pp"
  shows "\<exists>logged. snd (verifyPayment rt h payment requirements tr) =
           tr @ NetCall (facilitator_post rt (h_facilitatorUrl h @ ''/verify'') pp requirements)
                # logged
         \<and> (\<forall>ev \<in> set logged. \<exists>l e. ev = ConsoleError l e)"
  unfolding verifyPayment_def verifyPayment_try_envelope [OF assms]
  by (auto split: sum.splits)

lemma verifyPayment_fails_to_false:
  assumes "get_prop payment ''paymentPayload'' = Inr pp"
    and "fetch rt tr (facilitator_post rt (h_facilitatorUrl h @ ''/verify'') pp requirements) = Inl e
         \<or> (\<exists>resp. fetch rt tr (facilitator_post rt (h_facilitatorUrl h @ ''/verify'') pp requirements)
                      = Inr resp \<and> json resp = Inl e)"
  shows "fst (verifyPayment rt h payment requirements tr) = Inr False"
  using assms(2) unfolding verifyPayment_envelope [OF assms(1)] by auto

lemma settlePayment_envelope:
  assumes "get_prop payment ''paymentPayload'' = Inr pp"
  shows "settlePayment rt h payment requirements tr =
     (case fetch rt tr (facilitator_post rt (h_facilitatorUrl h @ ''/settle'') pp requirements) of
        Inl e \<Rightarrow> (Inl e, tr @ [NetCall (facilitator_post rt (h_facilitatorUrl h @ ''/settle'') pp requirements),
                              ConsoleError ''Payment settlement failed:'' e])
      | Inr resp \<Rightarrow>
          (case json resp of
             Inl e \<Rightarrow> (Inl e, tr @ [NetCall (facilitator_post rt (h_facilitatorUrl h @ ''/settle'') pp requirements),
                                   ConsoleError ''Payment settlement failed:'' e])
           | Inr result \<Rightarrow> (Inr result, tr @ [NetCall (facilitator_post rt (h_facilitatorUrl h @ ''/settle'') pp requirements)])))"
  using assms
  by (simp add: settlePayment_def settlePayment_start_def settlePayment_resume_def Let_def
           split: sum.splits)

text \<open>
  Claim C2. \<open>verifyPayment\<close> always returns a boolean, never an error, and the boolean
  is \<open>true\<close> exactly when the request reached the facilitator, the response body parsed,
  and its \<open>isValid\<close> is the boolean \<open>true\<close>. In every other case (the call threw, the
  body did not parse, \<open>isValid\<close> is absent, \<open>false\<close> or anything else than \<open>true\<close>)
  the result is \<open>false\<close>; \<open>verifyPayment_examples\<close> runs each of them.
\<close>

theorem verifyPayment_true_iff_isValid_true:
  "fst (verifyPayment rt h payment requirements tr) =
     Inr (\<exists>pp resp result.
            get_prop payment ''paymentPayload'' = Inr pp
          \<and> fetch rt tr (facilitator_post rt (h_facilitatorUrl h @ ''/verify'') pp requirements)
              = Inr resp
          \<and> json resp = Inr result
          \<and> get_prop result ''isValid'' = Inr (JBool True))"
proof (cases "get_prop payment ''paymentPayload''")
  case (Inl e)
  then show ?thesis by (simp add: verifyPayment_no_envelope)
next
  case (Inr pp)
  then show ?thesis by (simp add: verifyPayment_envelope)
qed

text \<open>
  Claim C8. For an envelope, \<open>settlePayment\<close> returns what the facilitator call gave: the
  transport's failure if the call threw, the parse failure if \<open>response.json()\<close> threw,
  and otherwise the parsed result. \<open>verifyPayment\<close> turns the same two failures into
  \<open>false\<close>.
\<close>

theorem settlePayment_propagates_failure:
  assumes "get_prop payment ''paymentPayload'' = Inr pp"
  shows "fst (settlePayment rt h payment requirements tr) =
           (case fetch rt tr (facilitator_post rt (h_facilitatorUrl h @ ''/settle'') pp requirements) of
              Inl e \<Rightarrow> Inl e
            | Inr resp \<Rightarrow> json resp)
       \<and> ((fetch rt tr (facilitator_post rt (h_facilitatorUrl h @ ''/verify'') pp requirements) = Inl e
            \<or> (\<exists>resp. fetch rt tr (facilitator_post rt (h_facilitatorUrl h @ ''/verify'') pp requirements)
                         = Inr resp \<and> json resp = Inl e))
           \<longrightarrow> fst (verifyPayment rt h payment requirements tr) = Inr False)"
proof -
  have "fst (settlePayment rt h payment requirements tr) =
           (case fetch rt tr (facilitator_post rt (h_facilitatorUrl h @ ''/settle'') pp requirements) of
              Inl e \<Rightarrow> Inl e
            | Inr resp \<Rightarrow> json resp)"
    unfolding settlePayment_envelope [OF assms] by (simp split: sum.splits)
  then show ?thesis
    using verifyPayment_fails_to_false [OF assms] by blast
qed

text \<open>
  Claim C10. Two envelopes with the same \<open>paymentPayload\<close> get the same result and leave
  the same trace, from \<open>verifyPayment\<close> and from \<open>settlePayment\<close>, whatever else they
  hold: the request sent is the POST whose body is the JSON text of the envelope made of
  that payload and of the \<open>requirements\<close> argument. The \<open>paymentRequirements\<close> inside
  the envelope are not read.
\<close>

theorem facilitator_request_ignores_embedded_requirements:
  assumes "get_prop p1 ''paymentPayload'' = Inr pp"
    and "get_prop p2 ''paymentPayload'' = Inr pp"
  shows "verifyPayment rt h p1 requirements tr = verifyPayment rt h p2 requirements tr
       \<and> settlePayment rt h p1 requirements tr = settlePayment rt h p2 requirements tr
       \<and> (\<exists>logged. snd (verifyPayment rt h p1 requirements tr) =
             tr @ NetCall (facilitator_post rt (h_facilitatorUrl h @ ''/verify'') pp requirements)
                  # logged)
       \<and> (\<exists>logged. snd (settlePayment rt h p1 requirements tr) =
             tr @ NetCall (facilitator_post rt (h_facilitatorUrl h @ ''/settle'') pp requirements)
                  # logged)
       \<and> (\<forall>endpoint. init (facilitator_post rt endpoint pp requirements) =
             Some \<lparr>http_method = Some ''POST'',
                   headers = Some [(''Content-Type'', ''application/json'')],
                   body = Some (JSON_stringify rt (payment_envelope pp requirements))\<rparr>)"
proof -
  have v: "verifyPayment rt h p1 requirements tr = verifyPayment rt h p2 requirements tr"
    by (simp add: verifyPayment_def verifyPayment_try_envelope [OF assms(1)]
          verifyPayment_try_envelope [OF assms(2)])
  have s: "settlePayment rt h p1 requirements tr = settlePayment rt h p2 requirements tr"
    by (simp add: settlePayment_envelope [OF assms(1)] settlePayment_envelope [OF assms(2)])
  have vt: "\<exists>logged. snd (verifyPayment rt h p1 requirements tr) =
             tr @ NetCall (facilitator_post rt (h_facilitatorUrl h @ ''/verify'') pp requirements)
                  # logged"
    using verifyPayment_trace [OF assms(1)] by blast
  have st: "\<exists>logged. snd (settlePayment rt h p1 requirements tr) =
             tr @ NetCall (facilitator_post rt (h_facilitatorUrl h @ ''/settle'') pp requirements)
                  # logged"
    unfolding settlePayment_envelope [OF assms(1)] by (simp split: sum.splits)
  show ?thesis
    using v s vt st by (simp add: facilitator_post_def)
qed


lemma test_envelope_payload: "get_prop test_envelope ''paymentPayload'' = Inr test_payload"
  by (simp add: test_envelope_def payment_envelope_def)

theorem settlePayment_propagates_failure_witness:
  "get_prop test_envelope ''paymentPayload'' = Inr test_payload
   \<and> fetch (test_runtime [Inl (NetworkFailure ''connection refused'')] [] (\<lambda>k. 0)) []
        (facilitator_post (test_runtime [Inl (NetworkFailure ''connection refused'')] [] (\<lambda>k. 0))
           (h_facilitatorUrl test_handler @ ''/verify'') test_payload test_requirements)
       = Inl (NetworkFailure ''connection refused'')
   \<and> fst (settlePayment (test_runtime [Inl (NetworkFailure ''connection refused'')] [] (\<lambda>k. 0))
            test_handler test_envelope test_requirements [])
       = Inl (NetworkFailure ''connection refused'')
   \<and> fst (verifyPayment (test_runtime [Inl (NetworkFailure ''connection refused'')] [] (\<lambda>k. 0))
            test_handler test_envelope test_requirements [])
       = Inr False
   \<and> fst (settlePayment
            (test_runtime [facilitator_says (JObj [(''isValid'', JBool True),
                                                   (''transactionHash'', JStr ''5Kd3'')])]
               [] (\<lambda>k. 0))
            test_handler test_envelope test_requirements [])
       = Inr (JObj [(''isValid'', JBool True), (''transactionHash'', JStr ''5Kd3'')])"
proof -
  let ?down = "test_runtime [Inl (NetworkFailure ''connection refused'')] [] (\<lambda>k. 0)"
  let ?up = "test_runtime [facilitator_says (JObj [(''isValid'', JBool True),
                                                   (''transactionHash'', JStr ''5Kd3'')])]
               [] (\<lambda>k. 0)"
  have down: "fetch ?down [] r = Inl (NetworkFailure ''connection refused'')" for r
    by (simp add: runtime_eval)
  have up: "fetch ?up [] r = Inr \<lparr>status = 200,
                                   json = Inr (JObj [(''isValid'', JBool True),
                                                     (''transactionHash'', JStr ''5Kd3'')])\<rparr>" for r
    by (simp add: runtime_eval facilitator_says_def)
  note failing = settlePayment_propagates_failure [OF test_envelope_payload,
      of ?down test_handler test_requirements "[]" "NetworkFailure ''connection refused''"]
  note working = settlePayment_propagates_failure [OF test_envelope_payload,
      of ?up test_handler test_requirements "[]" "NetworkFailure ''connection refused''"]
  show ?thesis
    using failing working test_envelope_payload
    by (simp add: down up)
qed

theorem facilitator_request_ignores_embedded_requirements_witness:
  "get_prop (payment_envelope test_payload test_requirements) ''paymentPayload'' = Inr test_payload
   \<and> get_prop (payment_envelope test_payload (JObj [(''maxAmountRequired'', JStr ''1'')]))
         ''paymentPayload'' = Inr test_payload
   \<and> payment_envelope test_payload test_requirements
       \<noteq> payment_envelope test_payload (JObj [(''maxAmountRequired'', JStr ''1'')])
   \<and> verifyPayment (test_runtime [facilitator_says (JObj [(''isValid'', JBool True)])] [] (\<lambda>k. 0))
         test_handler (payment_envelope test_payload test_requirements) test_requirements []
       = verifyPayment (test_runtime [facilitator_says (JObj [(''isValid'', JBool True)])] [] (\<lambda>k. 0))
           test_handler (payment_envelope test_payload (JObj [(''maxAmountRequired'', JStr ''1'')]))
           test_requirements []
   \<and> settlePayment (test_runtime [facilitator_says (JObj [(''isValid'', JBool True)])] [] (\<lambda>k. 0))
         test_handler (payment_envelope test_payload test_requirements) test_requirements []
       = settlePayment (test_runtime [facilitator_says (JObj [(''isValid'', JBool True)])] [] (\<lambda>k. 0))
           test_handler (payment_envelope test_payload (JObj [(''maxAmountRequired'', JStr ''1'')]))
           test_requirements []"
proof -
  have p1: "get_prop (payment_envelope test_payload test_requirements) ''paymentPayload''
              = Inr test_payload"
    by (simp add: payment_envelope_def)
  have p2: "get_prop (payment_envelope test_payload (JObj [(''maxAmountRequired'', JStr ''1'')]))
              ''paymentPayload'' = Inr test_payload"
    by (simp add: payment_envelope_def)
  have ne: "payment_envelope test_payload test_requirements
              \<noteq> payment_envelope test_payload (JObj [(''maxAmountRequired'', JStr ''1'')])"
    by (simp add: payment_envelope_def test_requirements_def)
  show ?thesis
    using p1 p2 ne
      facilitator_request_ignores_embedded_requirements [OF p1 p2,
        of "test_runtime [facilitator_says (JObj [(''isValid'', JBool True)])] [] (\<lambda>k. 0)"
           test_handler test_requirements "[]"]
    by simp
qed

lemma verifyPayment_examples:
  "fst (verifyPayment (test_runtime [facilitator_says (JObj [(''isValid'', JBool True)])] [] (\<lambda>k. 0))
          test_handler test_envelope test_requirements []) = Inr True"
  "fst (verifyPayment (test_runtime [facilitator_says (JObj [(''isValid'', JStr ''true'')])] [] (\<lambda>k. 0))
          test_handler test_envelope test_requirements []) = Inr False"
  "fst (verifyPayment (test_runtime [facilitator_says (JObj [(''payer'', JStr ''abc'')])] [] (\<lambda>k. 0))
          test_handler test_envelope test_requirements []) = Inr False"
  "fst (verifyPayment (test_runtime [facilitator_says JNull] [] (\<lambda>k. 0))
          test_handler test_envelope test_requirements []) = Inr False"
  "fst (verifyPayment (test_runtime [Inr \<lparr>status = 502, json = Inl SyntaxError\<rparr>] [] (\<lambda>k. 0))
          test_handler test_envelope test_requirements []) = Inr False"
  "fst (verifyPayment (test_runtime [Inl (NetworkFailure ''timeout'')] [] (\<lambda>k. 0))
          test_handler test_envelope test_requirements []) = Inr False"
  "fst (verifyPayment (test_runtime [] [] (\<lambda>k. 0)) test_handler JNull test_requirements [])
     = Inr False"
  by (simp_all add: verifyPayment_envelope [OF test_envelope_payload] verifyPayment_no_envelope
        runtime_eval facilitator_says_def)

section \<open>Reading the payment header\<close>

lemma field_present_object:
  assumes "field_present parsed k"
  shows "\<exists>kvs v. parsed = JObj kvs \<and> get_prop parsed k = Inr v \<and> truthy v"
  using assms by (cases parsed) (auto simp: field_present_def split: option.splits)

lemma extractPayment_accepts:
  assumes "payment_header hdrs = Some s" and "s \<noteq> []"
    and "JSON_parse rt s = Inr parsed"
    and "field_present parsed ''paymentPayload''"
    and "field_present parsed ''paymentRequirements''"
  shows "extractPayment rt hdrs = parsed"
  using assms by (auto simp: extractPayment_def field_present_def split: sum.splits)

lemma extractPayment_sound:
  "extractPayment rt hdrs = JNull
   \<or> (\<exists>s. payment_header hdrs = Some s \<and> s \<noteq> []
          \<and> JSON_parse rt s = Inr (extractPayment rt hdrs)
          \<and> field_present (extractPayment rt hdrs) ''paymentPayload''
          \<and> field_present (extractPayment rt hdrs) ''paymentRequirements'')"
  by (auto simp: extractPayment_def field_present_def split: option.splits sum.splits)

lemma extractPayment_truthy:
  "truthy (extractPayment rt hdrs) \<longleftrightarrow> extractPayment rt hdrs \<noteq> JNull"
  using extractPayment_sound [of rt hdrs] field_present_object by fastforce

lemma extractPayment_has_payload:
  assumes "extractPayment rt hdrs \<noteq> JNull"
  shows "\<exists>pp. get_prop (extractPayment rt hdrs) ''paymentPayload'' = Inr pp"
  using assms extractPayment_sound [of rt hdrs] field_present_object by blast

lemma Headers_get_any_case:
  "lower name = lower name' \<Longrightarrow> Headers_get hs name = Headers_get hs name'"
  by (simp add: Headers_get_def)

lemma lower_X_Payment: "lower ''X-Payment'' = ''x-payment''"
  by (simp add: lower_def lower_char_def)

lemma lower_x_payment: "lower ''x-payment'' = lower ''X-Payment''"
  by (simp add: lower_def lower_char_def)

lemma payment_header_object:
  assumes "lower name = lower ''X-Payment''"
  shows "payment_header (HeadersObject hs) = Headers_get hs name"
  using Headers_get_any_case [OF assms, of hs] by (simp add: payment_header_def)

lemma payment_header_record_none:
  assumes "\<forall>k. lower k = lower ''X-Payment'' \<longrightarrow> r k = None \<or> r k = Some (HString [])"
  shows "payment_header (HeadersRecord r) = None \<or> payment_header (HeadersRecord r) = Some []"
proof -
  have a: "r ''x-payment'' = None \<or> r ''x-payment'' = Some (HString [])"
    using assms lower_x_payment by blast
  have b: "r ''X-Payment'' = None \<or> r ''X-Payment'' = Some (HString [])"
    using assms by blast
  show ?thesis
    using a b by (auto simp: payment_header_def)
qed

lemma extractPayment_no_text:
  assumes "payment_header hdrs = None \<or> payment_header hdrs = Some []"
  shows "extractPayment rt hdrs = JNull"
  using assms by (auto simp: extractPayment_def)

lemma extractPayment_of_text:
  assumes "payment_header hdrs = t"
  shows "(t = None \<or> t = Some [] \<longrightarrow> extractPayment rt hdrs = JNull)
   \<and> (t = Some s \<and> JSON_parse rt s = Inl e \<longrightarrow> extractPayment rt hdrs = JNull)
   \<and> (t = Some s \<and> JSON_parse rt s = Inr parsed
        \<and> (get_prop parsed ''paymentPayload'' = Inl e'
            \<or> get_prop parsed ''paymentPayload'' = Inr pp \<and> \<not> truthy pp)
       \<longrightarrow> extractPayment rt hdrs = JNull)
   \<and> (t = Some s \<and> JSON_parse rt s = Inr parsed
        \<and> (get_prop parsed ''paymentRequirements'' = Inl e'
            \<or> get_prop parsed ''paymentRequirements'' = Inr pr \<and> \<not> truthy pr)
       \<longrightarrow> extractPayment rt hdrs = JNull)
   \<and> (t = Some s \<and> s \<noteq> [] \<and> JSON_parse rt s = Inr parsed
        \<and> get_prop parsed ''paymentPayload'' = Inr pp \<and> truthy pp
        \<and> get_prop parsed ''paymentRequirements'' = Inr pr \<and> truthy pr
       \<longrightarrow> extractPayment rt hdrs = parsed)"
  using assms by (auto simp: extractPayment_def split: sum.splits)

text \<open>
  Claim C3, as amended. Let \<open>t\<close> be the text of the payment header. For a \<open>Headers\<close>
  object it is what \<open>get\<close> returns for the name \<open>X-Payment\<close> in any casing. For a plain
  record it is read under \<open>x-payment\<close>: a non-empty string is the text, a list gives its
  first element, and an empty list gives no text; only when \<open>x-payment\<close> is absent or the
  empty string is \<open>X-Payment\<close> read, in the same way; a record with no value, or only
  empty strings, under every casing of the name gives no text. Then \<open>extractPayment\<close>
  returns \<open>null\<close> when there is no text or the text is empty, when the text does not
  parse, and when \<open>paymentPayload\<close> or \<open>paymentRequirements\<close> cannot be read from the
  parsed value or is falsy (\<open>undefined\<close>, \<open>null\<close>, \<open>false\<close>, 0, the empty string);
  otherwise it returns the parsed value.
\<close>

theorem extractPayment_null_or_parsed_envelope:
  assumes "hdrs = HeadersObject hs \<and> lower name = lower ''X-Payment'' \<and> t = Headers_get hs name
    \<or> hdrs = HeadersRecord r \<and> r ''x-payment'' = Some (HString v) \<and> v \<noteq> [] \<and> t = Some v
    \<or> hdrs = HeadersRecord r \<and> r ''x-payment'' = Some (HArray (v # vs)) \<and> t = Some v
    \<or> hdrs = HeadersRecord r \<and> r ''x-payment'' = Some (HArray []) \<and> t = None
    \<or> hdrs = HeadersRecord r
       \<and> (r ''x-payment'' = None \<or> r ''x-payment'' = Some (HString []))
       \<and> r ''X-Payment'' = Some (HString v) \<and> t = Some v
    \<or> hdrs = HeadersRecord r
       \<and> (r ''x-payment'' = None \<or> r ''x-payment'' = Some (HString []))
       \<and> r ''X-Payment'' = Some (HArray (v # vs)) \<and> t = Some v
    \<or> hdrs = HeadersRecord r
       \<and> (r ''x-payment'' = None \<or> r ''x-payment'' = Some (HString []))
       \<and> r ''X-Payment'' = Some (HArray []) \<and> t = None
    \<or> hdrs = HeadersRecord r
       \<and> (\<forall>k. lower k = lower ''X-Payment'' \<longrightarrow> r k = None \<or> r k = Some (HString []))
       \<and> t = None"
  shows "(t = None \<or> t = Some [] \<longrightarrow> extractPayment rt hdrs = JNull)
   \<and> (t = Some s \<and> JSON_parse rt s = Inl e \<longrightarrow> extractPayment rt hdrs = JNull)
   \<and> (t = Some s \<and> JSON_parse rt s = Inr parsed
        \<and> (get_prop parsed ''paymentPayload'' = Inl e'
            \<or> get_prop parsed ''paymentPayload'' = Inr pp \<and> \<not> truthy pp)
       \<longrightarrow> extractPayment rt hdrs = JNull)
   \<and> (t = Some s \<and> JSON_parse rt s = Inr parsed
        \<and> (get_prop parsed ''paymentRequirements'' = Inl e'
            \<or> get_prop parsed ''paymentRequirements'' = Inr pr \<and> \<not> truthy pr)
       \<longrightarrow> extractPayment rt hdrs = JNull)
   \<and> (t = Some s \<and> s \<noteq> [] \<and> JSON_parse rt s = Inr parsed
        \<and> get_prop parsed ''paymentPayload'' = Inr pp \<and> truthy pp
        \<and> get_prop parsed ''paymentRequirements'' = Inr pr \<and> truthy pr
       \<longrightarrow> extractPayment rt hdrs = parsed)"
proof -
  consider (found) "payment_header hdrs = t"
    | (blank) "t = None"
        "payment_header hdrs = None \<or> payment_header hdrs = Some []"
    using assms payment_header_object [of name hs] payment_header_record_none [of r]
    by (auto simp: payment_header_def)
  then show ?thesis
  proof cases
    case found
    then show ?thesis by (rule extractPayment_of_text)
  next
    case blank
    then show ?thesis using extractPayment_no_text [of hdrs rt] by simp
  qed
qed

lemma test_envelope_fields:
  "field_present test_envelope ''paymentPayload''"
  "field_present test_envelope ''paymentRequirements''"
  by (simp_all add: field_present_def test_envelope_def payment_envelope_def
        test_payload_def test_requirements_def)

lemma test_envelope_text: "stringify test_envelope \<noteq> []"
  by (simp add: test_envelope_def payment_envelope_def)

lemma test_envelope_parses:
  "JSON_parse (test_runtime [] [test_envelope] (\<lambda>k. 0)) (stringify test_envelope)
     = Inr test_envelope"
  by (simp add: test_runtime_def parse_known_def)

lemma test_envelope_reads:
  "get_prop test_envelope ''paymentPayload'' = Inr test_payload"
  "truthy test_payload"
  "get_prop test_envelope ''paymentRequirements'' = Inr test_requirements"
  "truthy test_requirements"
  by (simp_all add: test_envelope_def payment_envelope_def test_payload_def
        test_requirements_def)

lemma not_json_refused:
  "JSON_parse (test_runtime [] [test_envelope] (\<lambda>k. 0)) ''not json'' = Inl SyntaxError"
  by (simp add: test_runtime_def parse_known_def test_envelope_def payment_envelope_def)

theorem extractPayment_null_or_parsed_envelope_witness:
  "lower ''x-PAYMENT'' = lower ''X-Payment''
   \<and> stringify test_envelope \<noteq> []
   \<and> JSON_parse (test_runtime [] [test_envelope] (\<lambda>k. 0)) (stringify test_envelope)
       = Inr test_envelope
   \<and> get_prop test_envelope ''paymentPayload'' = Inr test_payload \<and> truthy test_payload
   \<and> get_prop test_envelope ''paymentRequirements'' = Inr test_requirements
   \<and> truthy test_requirements
   \<and> extractPayment (test_runtime [] [test_envelope] (\<lambda>k. 0))
         (HeadersObject [(''x-PAYMENT'', stringify test_envelope)]) = test_envelope
   \<and> extractPayment (test_runtime [] [test_envelope] (\<lambda>k. 0))
         (HeadersObject [(''X-Payment'', ''not json'')]) = JNull
   \<and> extractPayment (test_runtime [] [test_envelope] (\<lambda>k. 0))
         (HeadersRecord [''x-payment'' \<mapsto> HArray [stringify test_envelope, ''second'']])
       = test_envelope
   \<and> extractPayment (test_runtime [] [test_envelope] (\<lambda>k. 0))
         (HeadersRecord [''x-payment'' \<mapsto> HString [],
                         ''X-Payment'' \<mapsto> HString (stringify test_envelope)])
       = test_envelope
   \<and> extractPayment (test_runtime [] [test_envelope] (\<lambda>k. 0))
         (HeadersRecord [''x-payment'' \<mapsto> HArray [],
                         ''X-Payment'' \<mapsto> HString (stringify test_envelope)])
       = JNull
   \<and> extractPayment (test_runtime [] [test_envelope] (\<lambda>k. 0))
         (HeadersRecord [''content-type'' \<mapsto> HString ''application/json'']) = JNull"
proof -
  let ?rt = "test_runtime [] [test_envelope] (\<lambda>k. 0)"
  let ?t = "stringify test_envelope"
  have lo: "lower ''x-PAYMENT'' = lower ''X-Payment''"
    by (simp add: lower_def lower_char_def)
  note facts = test_envelope_text test_envelope_parses test_envelope_reads
  have a: "extractPayment ?rt (HeadersObject [(''x-PAYMENT'', ?t)]) = test_envelope"
  proof -
    have hyp: "HeadersObject [(''x-PAYMENT'', ?t)] = HeadersObject [(''x-PAYMENT'', ?t)]
        \<and> lower ''x-PAYMENT'' = lower ''X-Payment''
        \<and> Some ?t = Headers_get [(''x-PAYMENT'', ?t)] ''x-PAYMENT''"
      using lo by (simp add: Headers_get_def)
    show ?thesis
      using extractPayment_null_or_parsed_envelope
        [where hdrs = "HeadersObject [(''x-PAYMENT'', ?t)]" and hs = "[(''x-PAYMENT'', ?t)]"
           and name = "''x-PAYMENT''" and t = "Some ?t" and r = Map.empty and v = "[]"
           and vs = "[]" and rt = ?rt and s = ?t and e = SyntaxError and e' = TypeError
           and parsed = test_envelope and pp = test_payload and pr = test_requirements]
        hyp facts
      by blast
  qed
  have b: "extractPayment ?rt (HeadersObject [(''X-Payment'', ''not json'')]) = JNull"
  proof -
    have hyp: "HeadersObject [(''X-Payment'', ''not json'')]
          = HeadersObject [(''X-Payment'', ''not json'')]
        \<and> lower ''X-Payment'' = lower ''X-Payment''
        \<and> Some ''not json'' = Headers_get [(''X-Payment'', ''not json'')] ''X-Payment''"
      by (simp add: Headers_get_def)
    show ?thesis
      using extractPayment_null_or_parsed_envelope
        [where hdrs = "HeadersObject [(''X-Payment'', ''not json'')]"
           and hs = "[(''X-Payment'', ''not json'')]"
           and name = "''X-Payment''" and t = "Some ''not json''" and r = Map.empty
           and v = "[]" and vs = "[]" and rt = ?rt and s = "''not json''"
           and e = SyntaxError and e' = TypeError
           and parsed = JNull and pp = JNull and pr = JNull]
        hyp not_json_refused
      by blast
  qed
  have c: "extractPayment ?rt (HeadersRecord [''x-payment'' \<mapsto> HArray [?t, ''second'']])
             = test_envelope"
  proof -
    let ?r = "[''x-payment'' \<mapsto> HArray [?t, ''second'']]"
    have hyp: "HeadersRecord ?r = HeadersRecord ?r
        \<and> ?r ''x-payment'' = Some (HArray (?t # [''second''])) \<and> Some ?t = Some ?t"
      by simp
    show ?thesis
      using extractPayment_null_or_parsed_envelope
        [where hdrs = "HeadersRecord ?r" and hs = "[]" and name = "[]" and t = "Some ?t"
           and r = ?r and v = ?t and vs = "[''second'']" and rt = ?rt and s = ?t
           and e = SyntaxError and e' = TypeError
           and parsed = test_envelope and pp = test_payload and pr = test_requirements]
        hyp facts
      by blast
  qed
  have d: "extractPayment ?rt (HeadersRecord [''x-payment'' \<mapsto> HString [],
                                              ''X-Payment'' \<mapsto> HString ?t]) = test_envelope"
  proof -
    let ?r = "[''x-payment'' \<mapsto> HString [], ''X-Payment'' \<mapsto> HString ?t]"
    have hyp: "HeadersRecord ?r = HeadersRecord ?r
        \<and> (?r ''x-payment'' = None \<or> ?r ''x-payment'' = Some (HString []))
        \<and> ?r ''X-Payment'' = Some (HString ?t) \<and> Some ?t = Some ?t"
      by simp
    show ?thesis
      using extractPayment_null_or_parsed_envelope
        [where hdrs = "HeadersRecord ?r" and hs = "[]" and name = "[]" and t = "Some ?t"
           and r = ?r and v = ?t and vs = "[]" and rt = ?rt and s = ?t
           and e = SyntaxError and e' = TypeError
           and parsed = test_envelope and pp = test_payload and pr = test_requirements]
        hyp facts
      by blast
  qed
  have e: "extractPayment ?rt (HeadersRecord [''x-payment'' \<mapsto> HArray [],
                                              ''X-Payment'' \<mapsto> HString ?t]) = JNull"
  proof -
    let ?r = "[''x-payment'' \<mapsto> HArray [], ''X-Payment'' \<mapsto> HString ?t]"
    have hyp: "HeadersRecord ?r = HeadersRecord ?r
        \<and> ?r ''x-payment'' = Some (HArray []) \<and> (None :: string option) = None"
      by simp
    show ?thesis
      using extractPayment_null_or_parsed_envelope
        [where hdrs = "HeadersRecord ?r" and hs = "[]" and name = "[]" and t = None
           and r = ?r and v = "[]" and vs = "[]" and rt = ?rt and s = "[]"
           and e = SyntaxError and e' = TypeError
           and parsed = JNull and pp = JNull and pr = JNull]
        hyp
      by blast
  qed
  have f: "extractPayment ?rt (HeadersRecord [''content-type'' \<mapsto> HString ''application/json''])
             = JNull"
  proof -
    let ?r = "[''content-type'' \<mapsto> HString ''application/json'']"
    have other: "lower ''content-type'' \<noteq> lower ''X-Payment''"
      by (simp add: lower_def lower_char_def)
    have hyp: "HeadersRecord ?r = HeadersRecord ?r
        \<and> (\<forall>k. lower k = lower ''X-Payment'' \<longrightarrow> ?r k = None \<or> ?r k = Some (HString []))
        \<and> (None :: string option) = None"
      using other by auto
    show ?thesis
      using extractPayment_null_or_parsed_envelope
        [where hdrs = "HeadersRecord ?r" and hs = "[]" and name = "[]" and t = None
           and r = ?r and v = "[]" and vs = "[]" and rt = ?rt and s = "[]"
           and e = SyntaxError and e' = TypeError
           and parsed = JNull and pp = JNull and pr = JNull]
        hyp
      by blast
  qed
  show ?thesis
    using lo facts a b c d e f by simp
qed

text \<open>
  The claim as first stated fails where a field is there but falsy: the header below is
  present, its text is JSON, and the parsed object has both fields, \<open>paymentPayload\<close>
  being 0; the test \<open>!parsed.paymentPayload\<close> sends it to \<open>null\<close>.
\<close>

theorem extractPayment_falsy_field_counterexample:
  "Headers_get [(''X-Payment'',
       stringify (JObj [(''paymentPayload'', JNum 0),
                        (''paymentRequirements'', test_requirements)]))] ''X-Payment''
     = Some (stringify (JObj [(''paymentPayload'', JNum 0),
                              (''paymentRequirements'', test_requirements)]))
   \<and> JSON_parse (test_runtime []
         [JObj [(''paymentPayload'', JNum 0), (''paymentRequirements'', test_requirements)]]
         (\<lambda>k. 0))
       (stringify (JObj [(''paymentPayload'', JNum 0), (''paymentRequirements'', test_requirements)]))
     = Inr (JObj [(''paymentPayload'', JNum 0), (''paymentRequirements'', test_requirements)])
   \<and> map_of [(''paymentPayload'', JNum 0), (''paymentRequirements'', test_requirements)]
        ''paymentPayload'' = Some (JNum 0)
   \<and> map_of [(''paymentPayload'', JNum 0), (''paymentRequirements'', test_requirements)]
        ''paymentRequirements'' = Some test_requirements
   \<and> extractPayment (test_runtime []
         [JObj [(''paymentPayload'', JNum 0), (''paymentRequirements'', test_requirements)]]
         (\<lambda>k. 0))
       (HeadersObject [(''X-Payment'',
          stringify (JObj [(''paymentPayload'', JNum 0),
                           (''paymentRequirements'', test_requirements)]))])
     = JNull
   \<and> JObj [(''paymentPayload'', JNum 0), (''paymentRequirements'', test_requirements)] \<noteq> JNull"
  by (simp add: extractPayment_def payment_header_def Headers_get_def test_runtime_def
        parse_known_def)

text \<open>
  A plain record is not read under other casings of the name: under the key
  \<open>X-PAYMENT\<close> a header that is accepted under \<open>X-Payment\<close>, and that a \<open>Headers\<close>
  object returns under either name, is not seen.
\<close>

lemma extractPayment_record_uppercase_key:
  "lower ''X-PAYMENT'' = lower ''X-Payment''
   \<and> extractPayment (test_runtime [] [test_envelope] (\<lambda>k. 0))
         (HeadersObject [(''X-PAYMENT'', stringify test_envelope)]) = test_envelope
   \<and> extractPayment (test_runtime [] [test_envelope] (\<lambda>k. 0))
         (HeadersRecord [''X-Payment'' \<mapsto> HString (stringify test_envelope)]) = test_envelope
   \<and> extractPayment (test_runtime [] [test_envelope] (\<lambda>k. 0))
         (HeadersRecord [''X-PAYMENT'' \<mapsto> HString (stringify test_envelope)]) = JNull"
proof -
  let ?rt = "test_runtime [] [test_envelope] (\<lambda>k. 0)"
  let ?t = "stringify test_envelope"
  have lo: "lower ''X-PAYMENT'' = lower ''X-Payment''"
    by (simp add: lower_def lower_char_def)
  have obj: "payment_header (HeadersObject [(''X-PAYMENT'', ?t)]) = Some ?t"
    using lo by (simp add: payment_header_def Headers_get_def)
  have hit: "payment_header (HeadersRecord [''X-Payment'' \<mapsto> HString ?t]) = Some ?t"
    by (simp add: payment_header_def)
  have miss: "payment_header (HeadersRecord [''X-PAYMENT'' \<mapsto> HString ?t]) = None"
    by (simp add: payment_header_def)
  have a: "extractPayment ?rt (HeadersObject [(''X-PAYMENT'', ?t)]) = test_envelope"
    by (rule extractPayment_accepts [OF obj test_envelope_text test_envelope_parses
          test_envelope_fields])
  have b: "extractPayment ?rt (HeadersRecord [''X-Payment'' \<mapsto> HString ?t]) = test_envelope"
    by (rule extractPayment_accepts [OF hit test_envelope_text test_envelope_parses
          test_envelope_fields])
  have c: "extractPayment ?rt (HeadersRecord [''X-PAYMENT'' \<mapsto> HString ?t]) = JNull"
    by (simp add: extractPayment_def miss)
  show ?thesis
    using lo a b c by simp
qed

text \<open>
  The header the client attaches is one the server accepts: with a codec that reads back
  what it wrote for this envelope, \<open>extractPayment\<close> returns the envelope the client
  built, whichever casing the \<open>Headers\<close> object stored the name under.
\<close>

lemma retry_header_accepted:
  assumes "Headers_get hs ''X-Payment''
             = Some (normalize_value (JSON_stringify rt (payment_envelope pp reqs)))"
    and "normalize_value (JSON_stringify rt (payment_envelope pp reqs)) \<noteq> []"
    and "JSON_parse rt (normalize_value (JSON_stringify rt (payment_envelope pp reqs)))
           = Inr (payment_envelope pp reqs)"
    and "truthy pp" and "truthy reqs"
  shows "extractPayment rt (HeadersObject hs) = payment_envelope pp reqs"
proof -
  have hdr: "payment_header (HeadersObject hs)
               = Some (normalize_value (JSON_stringify rt (payment_envelope pp reqs)))"
    using assms(1) by (simp add: payment_header_def)
  have fields: "field_present (payment_envelope pp reqs) ''paymentPayload''"
    "field_present (payment_envelope pp reqs) ''paymentRequirements''"
    using assms(4,5) by (simp_all add: field_present_def payment_envelope_def)
  show ?thesis
    by (rule extractPayment_accepts [OF hdr assms(2,3) fields])
qed

section \<open>The middleware\<close>

lemma verify_settle_urls: "u @ ''/verify'' \<noteq> u @ ''/settle''"
  by simp

lemma count_console: "\<forall>ev \<in> set logged. \<exists>l e. ev = ConsoleError l e
    \<Longrightarrow> count_list logged NextCalled = 0 \<and> filter (is_call_to u) logged = []"
  by (induction logged) auto

lemma count_list_append: "count_list (xs @ ys) a = count_list xs a + count_list ys a"
  by (induction xs) auto

lemma middleware_no_payment:
  assumes "extractPayment rt (HeadersRecord (req_headers req)) = JNull"
  shows "middleware rt h config req tr =
     (Inr (), tr @ [Responded 402
        (JObj [(''error'', JStr ''Payment Required''),
               (''x402Version'', JNum 1),
               (''paymentRequirements'',
                  createPaymentRequirements h (amount config) (request_resource config req) None)])])"
  using assms by (simp add: middleware_def Let_def create402Response_def)

lemma middleware_invalid:
  assumes "extractPayment rt (HeadersRecord (req_headers req)) \<noteq> JNull"
    and "fst (verifyPayment rt h (extractPayment rt (HeadersRecord (req_headers req)))
               (createPaymentRequirements h (amount config) (request_resource config req) None) tr)
         = Inr False"
  shows "middleware rt h config req tr =
     (Inr (), snd (verifyPayment rt h (extractPayment rt (HeadersRecord (req_headers req)))
               (createPaymentRequirements h (amount config) (request_resource config req) None) tr)
              @ [Responded 402 (JObj [(''error'', JStr ''Invalid payment'')])])"
proof -
  let ?payment = "extractPayment rt (HeadersRecord (req_headers req))"
  let ?reqs = "createPaymentRequirements h (amount config) (request_resource config req) None"
  obtain tr1 where v: "verifyPayment rt h ?payment ?reqs tr = (Inr False, tr1)"
    using assms(2) by (cases "verifyPayment rt h ?payment ?reqs tr") simp
  show ?thesis
    using assms(1) by (simp add: middleware_def Let_def extractPayment_truthy v)
qed

lemma settle_in_background:
  assumes "get_prop payment ''paymentPayload'' = Inr pp"
  shows "\<exists>bg.
      (case fst (settlePayment_resume (fst (settlePayment_start rt h payment requirements tr))
                   (snd (settlePayment_start rt h payment requirements tr) @ [NextCalled])) of
         Inl e \<Rightarrow> snd (settlePayment_resume (fst (settlePayment_start rt h payment requirements tr))
                          (snd (settlePayment_start rt h payment requirements tr) @ [NextCalled]))
                   @ [ConsoleError [] e]
       | Inr r \<Rightarrow> snd (settlePayment_resume (fst (settlePayment_start rt h payment requirements tr))
                          (snd (settlePayment_start rt h payment requirements tr) @ [NextCalled])))
      = tr @ [NetCall (facilitator_post rt (h_facilitatorUrl h @ ''/settle'') pp requirements),
              NextCalled] @ bg
    \<and> (\<forall>ev \<in> set bg. \<exists>l e. ev = ConsoleError l e)"
  using assms
  by (auto simp: settlePayment_start_def settlePayment_resume_def Let_def split: sum.splits)

lemma middleware_valid:
  assumes "extractPayment rt (HeadersRecord (req_headers req)) \<noteq> JNull"
    and "fst (verifyPayment rt h (extractPayment rt (HeadersRecord (req_headers req)))
               (createPaymentRequirements h (amount config) (request_resource config req) None) tr)
         = Inr True"
  shows "\<exists>pp bg.
      get_prop (extractPayment rt (HeadersRecord (req_headers req))) ''paymentPayload'' = Inr pp
    \<and> middleware rt h config req tr =
        (Inr (),
         snd (verifyPayment rt h (extractPayment rt (HeadersRecord (req_headers req)))
               (createPaymentRequirements h (amount config) (request_resource config req) None) tr)
         @ (if onPaymentVerified config
            then [PaymentVerified (extractPayment rt (HeadersRecord (req_headers req)))] else [])
         @ [NetCall (facilitator_post rt (h_facilitatorUrl h @ ''/settle'') pp
                       (createPaymentRequirements h (amount config) (request_resource config req) None)),
            NextCalled]
         @ bg)
    \<and> (\<forall>ev \<in> set bg. \<exists>l e. ev = ConsoleError l e)"
proof -
  let ?payment = "extractPayment rt (HeadersRecord (req_headers req))"
  let ?reqs = "createPaymentRequirements h (amount config) (request_resource config req) None"
  obtain tr1 where v: "verifyPayment rt h ?payment ?reqs tr = (Inr True, tr1)"
    using assms(2) by (cases "verifyPayment rt h ?payment ?reqs tr") simp
  obtain pp where pp: "get_prop ?payment ''paymentPayload'' = Inr pp"
    using extractPayment_has_payload [OF assms(1)] by blast
  let ?tr2 = "if onPaymentVerified config then tr1 @ [PaymentVerified ?payment] else tr1"
  obtain bg where bg:
    "(case fst (settlePayment_resume (fst (settlePayment_start rt h ?payment ?reqs ?tr2))
                   (snd (settlePayment_start rt h ?payment ?reqs ?tr2) @ [NextCalled])) of
         Inl e \<Rightarrow> snd (settlePayment_resume (fst (settlePayment_start rt h ?payment ?reqs ?tr2))
                          (snd (settlePayment_start rt h ?payment ?reqs ?tr2) @ [NextCalled]))
                   @ [ConsoleError [] e]
       | Inr r \<Rightarrow> snd (settlePayment_resume (fst (settlePayment_start rt h ?payment ?reqs ?tr2))
                          (snd (settlePayment_start rt h ?payment ?reqs ?tr2) @ [NextCalled])))
      = ?tr2 @ [NetCall (facilitator_post rt (h_facilitatorUrl h @ ''/settle'') pp ?reqs),
              NextCalled] @ bg"
    and only: "\<forall>ev \<in> set bg. \<exists>l e. ev = ConsoleError l e"
    using settle_in_background [OF pp, of rt h ?reqs ?tr2] by blast
  have "middleware rt h config req tr =
          (Inr (), ?tr2 @ [NetCall (facilitator_post rt (h_facilitatorUrl h @ ''/settle'') pp ?reqs),
              NextCalled] @ bg)"
    using assms(1) bg
    by (simp add: middleware_def Let_def extractPayment_truthy v)
  then show ?thesis
    using pp only v by auto
qed


lemma verifyPayment_leaves_next_alone:
  assumes "get_prop payment ''paymentPayload'' = Inr pp"
  shows "count_list (snd (verifyPayment rt h payment requirements tr)) NextCalled
           = count_list tr NextCalled"
    and "filter (is_call_to (h_facilitatorUrl h @ ''/settle''))
           (snd (verifyPayment rt h payment requirements tr))
           = filter (is_call_to (h_facilitatorUrl h @ ''/settle'')) tr"
proof -
  obtain logged where tr1: "snd (verifyPayment rt h payment requirements tr) =
           tr @ NetCall (facilitator_post rt (h_facilitatorUrl h @ ''/verify'') pp requirements)
                # logged"
    and only: "\<forall>ev \<in> set logged. \<exists>l e. ev = ConsoleError l e"
    using verifyPayment_trace [OF assms] by blast
  note quiet = count_console [OF only, of "h_facilitatorUrl h @ ''/settle''"]
  show "count_list (snd (verifyPayment rt h payment requirements tr)) NextCalled
           = count_list tr NextCalled"
    using quiet by (simp add: tr1 count_list_append)
  show "filter (is_call_to (h_facilitatorUrl h @ ''/settle''))
           (snd (verifyPayment rt h payment requirements tr))
           = filter (is_call_to (h_facilitatorUrl h @ ''/settle'')) tr"
    using quiet by (simp add: tr1 facilitator_post_def)
qed

text \<open>
  Claim C1. With \<open>payment\<close> what \<open>extractPayment\<close> returns for the request's headers
  and \<open>requirements\<close> what \<open>createPaymentRequirements\<close> builds for this request:
  \<^item> if \<open>payment\<close> is \<open>null\<close>, the middleware sends the 402 response of
    \<open>create402Response\<close> and does nothing else;
  \<^item> if \<open>verifyPayment\<close> returns \<open>false\<close>, it sends another 402 response, whose body
    is just \<open>{error: 'Invalid payment'}\<close>; \<open>next\<close> is not called and no request goes to
    the settle endpoint;
  \<^item> if \<open>verifyPayment\<close> returns \<open>true\<close>, it calls \<open>onPaymentVerified(payment)\<close> when
    that callback was given, sends one request to the settle endpoint, and calls \<open>next\<close>
    once, right after that request was sent: whatever becomes of the settlement comes
    after \<open>next\<close> and is logged only. This holds for every answer of the transport, a
    failing settlement included.
\<close>

theorem middleware_flow:
  fixes rt h config req tr
  defines "payment \<equiv> extractPayment rt (HeadersRecord (req_headers req))"
  defines "requirements \<equiv>
             createPaymentRequirements h (amount config) (request_resource config req) None"
  defines "settle_url \<equiv> h_facilitatorUrl h @ ''/settle''"
  shows
    "(payment = JNull \<longrightarrow>
        middleware rt h config req tr =
          (Inr (), tr @ [Responded 402
             (JObj [(''error'', JStr ''Payment Required''),
                    (''x402Version'', JNum 1),
                    (''paymentRequirements'', requirements)])]))
   \<and> (payment \<noteq> JNull \<and> fst (verifyPayment rt h payment requirements tr) = Inr False \<longrightarrow>
        middleware rt h config req tr =
          (Inr (), snd (verifyPayment rt h payment requirements tr)
                   @ [Responded 402 (JObj [(''error'', JStr ''Invalid payment'')])])
      \<and> count_list (snd (middleware rt h config req tr)) NextCalled = count_list tr NextCalled
      \<and> filter (is_call_to settle_url) (snd (middleware rt h config req tr))
          = filter (is_call_to settle_url) tr)
   \<and> (payment \<noteq> JNull \<and> fst (verifyPayment rt h payment requirements tr) = Inr True \<longrightarrow>
        (\<exists>pp bg.
            get_prop payment ''paymentPayload'' = Inr pp
          \<and> middleware rt h config req tr =
              (Inr (),
               snd (verifyPayment rt h payment requirements tr)
               @ (if onPaymentVerified config then [PaymentVerified payment] else [])
               @ [NetCall (facilitator_post rt settle_url pp requirements), NextCalled]
               @ bg)
          \<and> (\<forall>ev \<in> set bg. \<exists>l e. ev = ConsoleError l e))
      \<and> count_list (snd (middleware rt h config req tr)) NextCalled
          = count_list tr NextCalled + 1
      \<and> length (filter (is_call_to settle_url) (snd (middleware rt h config req tr)))
          = length (filter (is_call_to settle_url) tr) + 1)"
proof (intro conjI impI)
  assume "payment = JNull"
  then show "middleware rt h config req tr =
          (Inr (), tr @ [Responded 402
             (JObj [(''error'', JStr ''Payment Required''),
                    (''x402Version'', JNum 1),
                    (''paymentRequirements'', requirements)])])"
    unfolding payment_def requirements_def by (rule middleware_no_payment)
next
  assume a: "payment \<noteq> JNull \<and> fst (verifyPayment rt h payment requirements tr) = Inr False"
  then obtain pp where pp: "get_prop payment ''paymentPayload'' = Inr pp"
    unfolding payment_def using extractPayment_has_payload by blast
  have run: "middleware rt h config req tr =
          (Inr (), snd (verifyPayment rt h payment requirements tr)
                   @ [Responded 402 (JObj [(''error'', JStr ''Invalid payment'')])])"
    using a unfolding payment_def requirements_def by (simp add: middleware_invalid)
  show "middleware rt h config req tr =
          (Inr (), snd (verifyPayment rt h payment requirements tr)
                   @ [Responded 402 (JObj [(''error'', JStr ''Invalid payment'')])])"
    by (rule run)
  show "count_list (snd (middleware rt h config req tr)) NextCalled = count_list tr NextCalled"
    by (simp add: run count_list_append verifyPayment_leaves_next_alone(1) [OF pp])
  show "filter (is_call_to settle_url) (snd (middleware rt h config req tr))
          = filter (is_call_to settle_url) tr"
    unfolding settle_url_def
    by (simp add: run verifyPayment_leaves_next_alone(2) [OF pp])
next
  assume a: "payment \<noteq> JNull \<and> fst (verifyPayment rt h payment requirements tr) = Inr True"
  from a obtain pp bg where pp: "get_prop payment ''paymentPayload'' = Inr pp"
    and run: "middleware rt h config req tr =
              (Inr (),
               snd (verifyPayment rt h payment requirements tr)
               @ (if onPaymentVerified config then [PaymentVerified payment] else [])
               @ [NetCall (facilitator_post rt settle_url pp requirements), NextCalled]
               @ bg)"
    and only: "\<forall>ev \<in> set bg. \<exists>l e. ev = ConsoleError l e"
    unfolding payment_def requirements_def settle_url_def
    using middleware_valid [where rt = rt and req = req and h = h and config = config and tr = tr]
    by blast
  note quiet = count_console [OF only, of settle_url]
  show "\<exists>pp bg.
            get_prop payment ''paymentPayload'' = Inr pp
          \<and> middleware rt h config req tr =
              (Inr (),
               snd (verifyPayment rt h payment requirements tr)
               @ (if onPaymentVerified config then [PaymentVerified payment] else [])
               @ [NetCall (facilitator_post rt settle_url pp requirements), NextCalled]
               @ bg)
          \<and> (\<forall>ev \<in> set bg. \<exists>l e. ev = ConsoleError l e)"
    using pp run only by blast
  show "count_list (snd (middleware rt h config req tr)) NextCalled
          = count_list tr NextCalled + 1"
    using quiet
    by (simp add: run count_list_append verifyPayment_leaves_next_alone(1) [OF pp])
  show "length (filter (is_call_to settle_url) (snd (middleware rt h config req tr)))
          = length (filter (is_call_to settle_url) tr) + 1"
    using quiet verifyPayment_leaves_next_alone(2) [OF pp, where rt = rt and h = h and requirements = requirements and tr = tr]
    by (simp add: run facilitator_post_def settle_url_def)
qed


lemma test_envelope_not_null: "test_envelope \<noteq> JNull"
  by (simp add: test_envelope_def payment_envelope_def)

lemma test_request_payment:
  "extractPayment (test_runtime answers [test_envelope] clock)
     (HeadersRecord [''x-payment'' \<mapsto> HString (stringify test_envelope)]) = test_envelope"
proof -
  have hit: "payment_header (HeadersRecord [''x-payment'' \<mapsto> HString (stringify test_envelope)])
               = Some (stringify test_envelope)"
    using test_envelope_text by (simp add: payment_header_def)
  have parses: "JSON_parse (test_runtime answers [test_envelope] clock) (stringify test_envelope)
                  = Inr test_envelope"
    by (simp add: test_runtime_def parse_known_def)
  show ?thesis
    by (rule extractPayment_accepts [OF hit test_envelope_text parses test_envelope_fields])
qed

theorem middleware_flow_witness:
  "extractPayment (test_runtime [] [test_envelope] (\<lambda>k. 0)) (HeadersRecord Map.empty) = JNull
   \<and> snd (middleware (test_runtime [] [test_envelope] (\<lambda>k. 0)) test_handler
            \<lparr>amount = ''1000000'', resource = None, onPaymentVerified = True\<rparr>
            \<lparr>req_headers = Map.empty, originalUrl = Some ''/api/premium'', req_url = None\<rparr> [])
       = [Responded 402
            (JObj [(''error'', JStr ''Payment Required''),
                   (''x402Version'', JNum 1),
                   (''paymentRequirements'',
                      JObj [(''scheme'', JStr ''exact''),
                            (''network'', JStr ''solana-devnet''),
                            (''payTo'', JStr ''treasury''),
                            (''maxAmountRequired'', JStr ''1000000''),
                            (''resource'', JStr ''/api/premium'')])])]
   \<and> fst (verifyPayment
            (test_runtime [facilitator_says (JObj [(''isValid'', JBool False)])] [test_envelope] (\<lambda>k. 0))
            test_handler test_envelope
            (createPaymentRequirements test_handler ''1000000'' ''/api/premium'' None) [])
       = Inr False
   \<and> count_list (snd (middleware
            (test_runtime [facilitator_says (JObj [(''isValid'', JBool False)])] [test_envelope] (\<lambda>k. 0))
            test_handler
            \<lparr>amount = ''1000000'', resource = None, onPaymentVerified = True\<rparr>
            \<lparr>req_headers = [''x-payment'' \<mapsto> HString (stringify test_envelope)],
             originalUrl = Some ''/api/premium'', req_url = None\<rparr> [])) NextCalled = 0
   \<and> fst (verifyPayment
            (test_runtime [facilitator_says (JObj [(''isValid'', JBool True)]),
                           Inl (NetworkFailure ''connection reset'')] [test_envelope] (\<lambda>k. 0))
            test_handler test_envelope
            (createPaymentRequirements test_handler ''1000000'' ''/api/premium'' None) [])
       = Inr True
   \<and> count_list (snd (middleware
            (test_runtime [facilitator_says (JObj [(''isValid'', JBool True)]),
                           Inl (NetworkFailure ''connection reset'')] [test_envelope] (\<lambda>k. 0))
            test_handler
            \<lparr>amount = ''1000000'', resource = None, onPaymentVerified = True\<rparr>
            \<lparr>req_headers = [''x-payment'' \<mapsto> HString (stringify test_envelope)],
             originalUrl = Some ''/api/premium'', req_url = None\<rparr> [])) NextCalled = 1
   \<and> length (filter (is_call_to (h_facilitatorUrl test_handler @ ''/settle''))
         (snd (middleware
            (test_runtime [facilitator_says (JObj [(''isValid'', JBool True)]),
                           Inl (NetworkFailure ''connection reset'')] [test_envelope] (\<lambda>k. 0))
            test_handler
            \<lparr>amount = ''1000000'', resource = None, onPaymentVerified = True\<rparr>
            \<lparr>req_headers = [''x-payment'' \<mapsto> HString (stringify test_envelope)],
             originalUrl = Some ''/api/premium'', req_url = None\<rparr> []))) = 1"
proof -
  let ?config = "\<lparr>amount = ''1000000'', resource = None, onPaymentVerified = True\<rparr>"
  let ?bare = "\<lparr>req_headers = Map.empty, originalUrl = Some ''/api/premium'', req_url = None\<rparr>"
  let ?paid = "\<lparr>req_headers = [''x-payment'' \<mapsto> HString (stringify test_envelope)],
                originalUrl = Some ''/api/premium'', req_url = None\<rparr>"
  let ?none = "test_runtime [] [test_envelope] (\<lambda>k. 0)"
  let ?no = "test_runtime [facilitator_says (JObj [(''isValid'', JBool False)])]
               [test_envelope] (\<lambda>k. 0)"
  let ?yes = "test_runtime [facilitator_says (JObj [(''isValid'', JBool True)]),
                            Inl (NetworkFailure ''connection reset'')] [test_envelope] (\<lambda>k. 0)"
  let ?reqs = "createPaymentRequirements test_handler ''1000000'' ''/api/premium'' None"
  have res: "request_resource ?config r = ''/api/premium''"
    if "originalUrl r = Some ''/api/premium''" for r
    using that by (simp add: request_resource_def or_string_def)
  have absent: "extractPayment ?none (HeadersRecord Map.empty) = JNull"
    by (simp add: extractPayment_def payment_header_def)
  have rejected: "fst (verifyPayment ?no test_handler test_envelope ?reqs []) = Inr False"
    by (simp add: verifyPayment_envelope [OF test_envelope_payload] runtime_eval
          facilitator_says_def)
  have accepted: "fst (verifyPayment ?yes test_handler test_envelope ?reqs []) = Inr True"
    by (simp add: verifyPayment_envelope [OF test_envelope_payload] runtime_eval
          facilitator_says_def)
  have a: "snd (middleware ?none test_handler ?config ?bare []) =
      [Responded 402
            (JObj [(''error'', JStr ''Payment Required''),
                   (''x402Version'', JNum 1),
                   (''paymentRequirements'',
                      JObj [(''scheme'', JStr ''exact''),
                            (''network'', JStr ''solana-devnet''),
                            (''payTo'', JStr ''treasury''),
                            (''maxAmountRequired'', JStr ''1000000''),
                            (''resource'', JStr ''/api/premium'')])])]"
    using middleware_flow [where rt = ?none and h = test_handler and config = ?config
        and req = ?bare and tr = "[]"] absent
    by (simp add: res createPaymentRequirements_def test_handler_def new_KovaPaymentHandler_def)
  have b: "count_list (snd (middleware ?no test_handler ?config ?paid [])) NextCalled = 0"
  proof -
    have hyp: "extractPayment ?no (HeadersRecord (req_headers ?paid)) \<noteq> JNull
        \<and> fst (verifyPayment ?no test_handler (extractPayment ?no (HeadersRecord (req_headers ?paid)))
               (createPaymentRequirements test_handler (amount ?config)
                  (request_resource ?config ?paid) None) []) = Inr False"
      using rejected test_envelope_not_null by (simp add: res test_request_payment)
    from middleware_flow [where rt = ?no and h = test_handler and config = ?config
        and req = ?paid and tr = "[]"] hyp
    have "count_list (snd (middleware ?no test_handler ?config ?paid [])) NextCalled
            = count_list [] NextCalled"
      by blast
    then show ?thesis by simp
  qed
  have c: "count_list (snd (middleware ?yes test_handler ?config ?paid [])) NextCalled = 1
         \<and> length (filter (is_call_to (h_facilitatorUrl test_handler @ ''/settle''))
              (snd (middleware ?yes test_handler ?config ?paid []))) = 1"
  proof -
    have hyp: "extractPayment ?yes (HeadersRecord (req_headers ?paid)) \<noteq> JNull
        \<and> fst (verifyPayment ?yes test_handler (extractPayment ?yes (HeadersRecord (req_headers ?paid)))
               (createPaymentRequirements test_handler (amount ?config)
                  (request_resource ?config ?paid) None) []) = Inr True"
      using accepted test_envelope_not_null by (simp add: res test_request_payment)
    from middleware_flow [where rt = ?yes and h = test_handler and config = ?config
        and req = ?paid and tr = "[]"] hyp
    have "count_list (snd (middleware ?yes test_handler ?config ?paid [])) NextCalled
            = count_list [] NextCalled + 1
        \<and> length (filter (is_call_to (h_facilitatorUrl test_handler @ ''/settle''))
              (snd (middleware ?yes test_handler ?config ?paid [])))
            = length (filter (is_call_to (h_facilitatorUrl test_handler @ ''/settle'')) []) + 1"
      by blast
    then show ?thesis by simp
  qed
  show ?thesis
    using absent rejected accepted a b c by simp
qed

end
